(* ===== verification/Shop_Prelude.thy ===== *)
theory Shop_Prelude
  imports Complex_Main "HOL-Library.Multiset"
begin

text \<open>
  Shared vocabulary of the storefront model. TypeScript numbers are modelled
  without rounding: prices, discounts and ratings as \<open>rat\<close>, quantities and
  indices as \<open>int\<close> (a quantity can go negative through a page handler, so
  \<open>nat\<close> would hide a behaviour of the code). Strings are \<open>string\<close>.
  This theory holds the type names, the two pieces of JavaScript semantics the
  pages rely on (truthiness of an optional number and \<open>String.prototype.slice\<close>
  with negative indices), and generic list lemmas shared by the cart proofs,
  collected in \<open>cart_simps\<close>.
\<close>

named_theorems cart_simps "rewrite rules shared by the cart and page proofs"

type_synonym product_id = string
type_synonym money = rat

section \<open>JavaScript semantics used by the pages\<close>

text \<open>
  \<open>x ? a : b\<close> on an optional number (\<open>discount?: number\<close>): \<open>undefined\<close> and
  \<open>0\<close> are falsy, every other number is truthy (NaN does not occur in the data).
\<close>

definition js_truthy_num :: "rat option \<Rightarrow> bool" where
  "js_truthy_num x = (case x of None \<Rightarrow> False | Some v \<Rightarrow> v \<noteq> 0)"

text \<open>
  \<open>s.slice(start, end)\<close> (ECMAScript 22.1.3.22): a negative index counts from the
  end and is clamped at 0, a positive one is clamped at the length, and an empty
  result comes back when the start is not before the end.
\<close>

definition js_rel_index :: "int \<Rightarrow> nat \<Rightarrow> nat" where
  "js_rel_index i len = (if i < 0 then nat (max 0 (int len + i)) else min (nat i) len)"

definition js_slice :: "'a list \<Rightarrow> int \<Rightarrow> int \<Rightarrow> 'a list" where
  "js_slice xs s e =
     (let from = js_rel_index s (length xs); to = js_rel_index e (length xs)
      in drop from (take to xs))"

definition js_slice_from :: "'a list \<Rightarrow> int \<Rightarrow> 'a list" where
  "js_slice_from xs s = js_slice xs s (int (length xs))"

text \<open>
  A template literal \<open>`${n}`\<close> of an integer-valued number: its decimal digits,
  with a minus sign when negative. The digits are computed on \<open>int\<close>, so that
  evaluation stays binary; the recursion stops because \<open>i div 10 < i\<close> for
  \<open>i \<ge> 10\<close>.
\<close>

function show_digits :: "int \<Rightarrow> string" where
  "show_digits i =
     (if i < 10 then [char_of (48 + nat i)] else show_digits (i div 10) @ [char_of (48 + nat (i mod 10))])"
  by auto
termination
  by (relation "measure nat") auto

declare show_digits.simps [simp del]

definition show_int :: "int \<Rightarrow> string" where
  "show_int i = (if i < 0 then CHR ''-'' # show_digits (- i) else show_digits i)"

section \<open>Event-driven components\<close>

text \<open>
  A page is a state and a step function over its UI events (one event is one
  React event handler run to completion; React applies the queued updates in
  order). Its reachable states are the least set holding the initial state and
  closed under steps; \<open>run\<close> replays a list of events.
\<close>

inductive reach :: "('s \<Rightarrow> 'e \<Rightarrow> 's) \<Rightarrow> 's \<Rightarrow> 's \<Rightarrow> bool"
  for step :: "'s \<Rightarrow> 'e \<Rightarrow> 's" and s0 :: 's where
  reach_init: "reach step s0 s0"
| reach_step: "reach step s0 s \<Longrightarrow> reach step s0 (step s e)"

definition run :: "('s \<Rightarrow> 'e \<Rightarrow> 's) \<Rightarrow> 's \<Rightarrow> 'e list \<Rightarrow> 's" where
  "run step s es = foldl step s es"

section \<open>Generic lemmas\<close>

lemma js_rel_index_le [simp]: "js_rel_index i len \<le> len"
  by (simp add: js_rel_index_def nat_le_iff)

lemma js_rel_index_nonneg [simp]: "0 \<le> i \<Longrightarrow> js_rel_index i len = min (nat i) len"
  by (simp add: js_rel_index_def)

lemma length_js_slice [simp]:
  "length (js_slice xs s e) = js_rel_index e (length xs) - js_rel_index s (length xs)"
  by (simp add: js_slice_def Let_def min_absorb2)

lemma js_truthy_num_simps [simp, cart_simps]:
  "js_truthy_num None = False"
  "js_truthy_num (Some v) = (v \<noteq> 0)"
  by (simp_all add: js_truthy_num_def)

text \<open>
  Updating the elements that satisfy \<open>P\<close> (the \<open>prev.map(item => item.id === id ?
  {...} : item)\<close> idiom) changes a sum over the list by the change of the
  updated elements only.
\<close>

lemma sum_list_map_cond_update [cart_simps]:
  fixes g :: "'a \<Rightarrow> 'b::ab_group_add"
  shows "sum_list (map g (map (\<lambda>x. if P x then f x else x) xs))
       = sum_list (map g xs) + sum_list (map (\<lambda>x. g (f x) - g x) (filter P xs))"
  by (induction xs) (simp_all add: algebra_simps)

lemma sum_list_map_filter_split:
  fixes g :: "'a \<Rightarrow> 'b::comm_monoid_add"
  shows "sum_list (map g xs) = sum_list (map g (filter P xs)) + sum_list (map g (filter (\<lambda>x. \<not> P x) xs))"
  by (induction xs) (simp_all add: ac_simps)

lemma filter_id_unique_key:
  "distinct (map k xs) \<Longrightarrow> filter (\<lambda>x. k x = a) xs = [] \<or> (\<exists>x. filter (\<lambda>x. k x = a) xs = [x])"
proof (induction xs)
  case Nil
  then show ?case by simp
next
  case (Cons y ys)
  show ?case
  proof (cases "k y = a")
    case True
    with Cons.prems have "filter (\<lambda>x. k x = a) ys = []"
      by (auto simp: filter_empty_conv intro: rev_image_eqI)
    with True show ?thesis by simp
  next
    case False
    with Cons show ?thesis by simp
  qed
qed

text \<open>An invariant of the initial state that every step keeps holds in every reachable state.\<close>

lemma reach_invariant:
  assumes "reach step s0 s" and "I s0" and "\<And>s e. I s \<Longrightarrow> I (step s e)"
  shows "I s"
  using assms(1) by (induction rule: reach.induct) (simp_all add: assms(2,3))

lemma reach_run: "reach step s0 (run step s0 es)"
proof (induction es rule: rev_induct)
  case Nil
  then show ?case by (simp add: run_def reach_init)
next
  case (snoc e es)
  then show ?case by (simp add: run_def reach_step)
qed

end
