(* ===== verification/Catalog.thy ===== *)
theory Catalog
  imports Shop_Prelude
begin

text \<open>
  The catalog data and the product presentation: the \<open>Product\<close> interface of
  \<open>src/src/components/ProductCard.tsx\<close> as the record \<open>product\<close>, the discounted
  price that \<open>ProductCard\<close>, \<open>CartDrawer\<close> and \<open>ProductDetail\<close> compute, the
  star ratings of \<open>ProductCard\<close> and of \<open>ProductDetail.renderStars\<close>, the richer
  \<open>Product\<close> interface of \<open>ProductDetail.tsx\<close> as \<open>detail_product\<close>, and the
  hard-coded mock catalogs of the pages.
\<close>

section \<open>Products\<close>

text \<open>
  \<open>interface Product\<close> (ProductCard.tsx). The field \<open>id\<close> is \<open>pid\<close> and
  \<open>image\<close> is \<open>image_src\<close>, since \<open>id\<close> and \<open>image\<close> name HOL constants.
  Optional fields are options.
\<close>

record product =
  pid :: product_id
  name :: string
  price :: money
  image_src :: string
  rating :: rat
  reviewCount :: int
  discount :: "rat option"
  badge :: "string option"

text \<open>
  \<open>discount ? price * (1 - discount / 100) : price\<close>: the ternary of
  ProductCard, CartDrawer (twice) and ProductDetail, with JavaScript truthiness on
  the optional discount.
\<close>

definition discount_price :: "money \<Rightarrow> rat option \<Rightarrow> money" where
  "discount_price p d = (if js_truthy_num d then p * (1 - the d / 100) else p)"

definition discounted_price :: "'a product_scheme \<Rightarrow> money" where
  "discounted_price p = discount_price (price p) (discount p)"

section \<open>Rendering of a product card\<close>

text \<open>
  A JSX child \<open>{cond && <el/>}\<close>: React renders nothing for \<open>undefined\<close>,
  \<open>false\<close> and \<open>''\<close>, but renders a number, so \<open>{0 && <el/>}\<close> shows the text
  ``0''.
\<close>

datatype 'a jsx_child = JNothing | JNumber rat | JElem 'a

definition jsx_and_num :: "rat option \<Rightarrow> (rat \<Rightarrow> 'a) \<Rightarrow> 'a jsx_child" where
  "jsx_and_num d e = (case d of None \<Rightarrow> JNothing | Some v \<Rightarrow> if v = 0 then JNumber 0 else JElem (e v))"

definition jsx_and_str :: "string option \<Rightarrow> (string \<Rightarrow> 'a) \<Rightarrow> 'a jsx_child" where
  "jsx_and_str s e = (case s of None \<Rightarrow> JNothing | Some v \<Rightarrow> if v = [] then JNothing else JElem (e v))"

text \<open>The parts of a card that depend on the data (ProductCard.tsx, lines 23--78).\<close>

record card_view =
  cv_badge :: "string jsx_child"
  cv_discount_badge :: "rat jsx_child"
  cv_stars :: "bool list"
  cv_price :: money
  cv_list_price :: "money jsx_child"
  cv_reviews :: int

definition card_stars :: "rat \<Rightarrow> bool list" where
  "card_stars r = map (\<lambda>i. int i < \<lfloor>r\<rfloor>) [0..<5]"

definition product_card_view :: "product \<Rightarrow> card_view" where
  "product_card_view p =
     \<lparr>cv_badge = jsx_and_str (badge p) (\<lambda>b. b),
      cv_discount_badge = jsx_and_num (discount p) (\<lambda>d. d),
      cv_stars = card_stars (rating p),
      cv_price = discounted_price p,
      cv_list_price = jsx_and_num (discount p) (\<lambda>_. price p),
      cv_reviews = reviewCount p\<rparr>"

text \<open>The card's button calls \<open>onAddToCart(product)\<close> with the card's product.\<close>

definition card_add_click :: "product \<Rightarrow> product" where
  "card_add_click p = p"

section \<open>The product detail page's product\<close>

text \<open>\<open>interface Product\<close> of ProductDetail.tsx: several images, stock data.\<close>

record detail_product =
  d_id :: product_id
  d_name :: string
  d_price :: money
  images :: "string list"
  d_rating :: rat
  d_reviewCount :: int
  d_discount :: "rat option"
  d_badge :: "string option"
  description :: string
  features :: "string list"
  specifications :: "(string \<times> string) list"
  inStock :: bool
  stockCount :: int

datatype star_glyph = Black_Star | White_Star

text \<open>
  \<open>renderStars\<close> (ProductDetail.tsx, lines 157--159):
  five black stars \<open>.slice(0, Math.floor(rating))\<close> followed by five white stars
  \<open>.slice(Math.floor(rating))\<close>; each star (U+2605, U+2606) is one UTF-16 code
  unit, so a string of five stars is a list of five glyphs.
\<close>

definition renderStars :: "rat \<Rightarrow> star_glyph list" where
  "renderStars r =
     js_slice (replicate 5 Black_Star) 0 \<lfloor>r\<rfloor> @ js_slice_from (replicate 5 White_Star) \<lfloor>r\<rfloor>"

text \<open>\<open>discountedPrice\<close> of ProductDetail.tsx, line 155.\<close>

definition detail_discounted_price :: "'a detail_product_scheme \<Rightarrow> money" where
  "detail_discounted_price p = discount_price (d_price p) (d_discount p)"

section \<open>Mock catalogs\<close>

text \<open>\<open>mockProducts\<close> of Store.tsx, lines 16--71.\<close>

definition store_mockProducts :: "product list" where
  "store_mockProducts =
    [\<lparr>pid = ''1'', name = ''Wireless Bluetooth Headphones'', price = 79.99,
      image_src = ''https://images.unsplash.com/photo-1505740420928-5e560c06d30e?auto=format&fit=crop&q=80&w=400&h=300'',
      rating = 4.5, reviewCount = 128, discount = Some 20, badge = Some ''Best Seller''\<rparr>,
     \<lparr>pid = ''2'', name = ''Smart Watch Series 5'', price = 299.99,
      image_src = ''https://images.unsplash.com/photo-1523275335684-37898b6baf30?auto=format&fit=crop&q=80&w=400&h=300'',
      rating = 4.8, reviewCount = 89, discount = Some 15, badge = None\<rparr>,
     \<lparr>pid = ''3'', name = ''Laptop Backpack'', price = 49.99,
      image_src = ''https://images.unsplash.com/photo-1553062407-98eeb64c6a62?auto=format&fit=crop&q=80&w=400&h=300'',
      rating = 4.3, reviewCount = 56, discount = None, badge = Some ''New''\<rparr>,
     \<lparr>pid = ''4'', name = ''Smartphone Case'', price = 24.99,
      image_src = ''https://images.unsplash.com/photo-1601593346740-925612772716?auto=format&fit=crop&q=80&w=400&h=300'',
      rating = 4.6, reviewCount = 234, discount = Some 30, badge = None\<rparr>,
     \<lparr>pid = ''5'', name = ''Portable Charger'', price = 34.99,
      image_src = ''https://images.unsplash.com/photo-1609592986755-20cfc2648c40?auto=format&fit=crop&q=80&w=400&h=300'',
      rating = 4.4, reviewCount = 167, discount = None, badge = Some ''Popular''\<rparr>,
     \<lparr>pid = ''6'', name = ''Gaming Mouse'', price = 59.99,
      image_src = ''https://images.unsplash.com/photo-1527864550417-7fd91fc51a46?auto=format&fit=crop&q=80&w=400&h=300'',
      rating = 4.7, reviewCount = 98, discount = None, badge = None\<rparr>]"

text \<open>\<open>categories\<close> of Store.tsx, lines 73--80 (name and product count).\<close>

definition store_categories :: "(string \<times> int) list" where
  "store_categories =
    [(''Electronics'', 120), (''Fashion'', 89), (''Home & Garden'', 156),
     (''Sports'', 78), (''Books'', 234), (''Beauty'', 67)]"

text \<open>\<open>mockProducts\<close> of Products.tsx, lines 23--77.\<close>

definition products_mockProducts :: "product list" where
  "products_mockProducts =
    [\<lparr>pid = ''1'', name = ''Wireless Bluetooth Headphones'', price = 79.99,
      image_src = ''https://images.unsplash.com/photo-1505740420928-5e560c06d30e?w=400&h=400&fit=crop'',
      rating = 4.5, reviewCount = 128, discount = Some 20, badge = Some ''Best Seller''\<rparr>,
     \<lparr>pid = ''2'', name = ''Smart Fitness Watch'', price = 199.99,
      image_src = ''https://images.unsplash.com/photo-1523275335684-37898b6baf30?w=400&h=400&fit=crop'',
      rating = 4.8, reviewCount = 89, discount = None, badge = Some ''New''\<rparr>,
     \<lparr>pid = ''3'', name = ''Laptop Backpack'', price = 49.99,
      image_src = ''https://images.unsplash.com/photo-1553062407-98eeb64c6a62?w=400&h=400&fit=crop'',
      rating = 4.3, reviewCount = 156, discount = Some 15, badge = None\<rparr>,
     \<lparr>pid = ''4'', name = ''Wireless Mouse'', price = 29.99,
      image_src = ''https://images.unsplash.com/photo-1527864550417-7fd91fc51a46?w=400&h=400&fit=crop'',
      rating = 4.6, reviewCount = 203, discount = None, badge = None\<rparr>,
     \<lparr>pid = ''5'', name = ''USB-C Cable'', price = 19.99,
      image_src = ''https://images.unsplash.com/photo-1558618047-3c8c76ca7d13?w=400&h=400&fit=crop'',
      rating = 4.4, reviewCount = 67, discount = None, badge = None\<rparr>,
     \<lparr>pid = ''6'', name = ''Smartphone Stand'', price = 24.99,
      image_src = ''https://images.unsplash.com/photo-1512499617640-c74ae3a79d37?w=400&h=400&fit=crop'',
      rating = 4.7, reviewCount = 145, discount = None, badge = Some ''Popular''\<rparr>]"

text \<open>\<open>mockProduct\<close> of ProductDetail.tsx, lines 40--73.\<close>

definition detail_mockProduct :: detail_product where
  "detail_mockProduct =
    \<lparr>d_id = ''1'', d_name = ''Wireless Bluetooth Headphones'', d_price = 79.99,
     images = [''https://images.unsplash.com/photo-1505740420928-5e560c06d30e?w=600&h=600&fit=crop'',
               ''https://images.unsplash.com/photo-1583394838336-acd977736f90?w=600&h=600&fit=crop'',
               ''https://images.unsplash.com/photo-1484704849700-f032a568e944?w=600&h=600&fit=crop''],
     d_rating = 4.5, d_reviewCount = 128, d_discount = Some 20, d_badge = Some ''Best Seller'',
     description = ''Experience premium sound quality with these wireless Bluetooth headphones. Featuring advanced noise cancellation technology and up to 30 hours of battery life, these headphones are perfect for music lovers and professionals alike.'',
     features = [''Active Noise Cancellation'', ''30-hour battery life'',
                 ''Quick charge: 5 minutes = 3 hours playback'', ''Premium comfort design'',
                 ''High-resolution audio support'', ''Built-in microphone for calls''],
     specifications = [(''Driver Size'', ''40mm''), (''Frequency Response'', ''20Hz - 20kHz''),
                       (''Impedance'', ''32 Ohm''), (''Battery Life'', ''30 hours''),
                       (''Charging Time'', ''2 hours''), (''Bluetooth Version'', ''5.0''),
                       (''Weight'', ''250g'')],
     inStock = True, stockCount = 15\<rparr>"

text \<open>\<open>reviews\<close> of ProductDetail.tsx, lines 75--97.\<close>

record review =
  review_id :: int
  author :: string
  review_rating :: rat
  comment :: string
  date :: string

definition detail_reviews :: "review list" where
  "detail_reviews =
    [\<lparr>review_id = 1, author = ''John D.'', review_rating = 5,
      comment = ''Amazing sound quality and comfort. Worth every penny!'', date = ''2024-01-15''\<rparr>,
     \<lparr>review_id = 2, author = ''Sarah M.'', review_rating = 4,
      comment = ''Great headphones, but the case could be better.'', date = ''2024-01-10''\<rparr>,
     \<lparr>review_id = 3, author = ''Mike R.'', review_rating = 5,
      comment = ''Best purchase I've made this year. Highly recommend!'', date = ''2024-01-05''\<rparr>]"

section \<open>Specification-level predicates\<close>

text \<open>
  The spec's constraints on catalog data: unique ids, non-negative prices and
  review counts, a rating in 0--5 and a discount percentage in (0, 100].
\<close>

definition catalog_wf :: "product list \<Rightarrow> bool" where
  "catalog_wf ps \<longleftrightarrow> distinct (map pid ps)
     \<and> list_all (\<lambda>p. 0 \<le> price p \<and> 0 \<le> rating p \<and> rating p \<le> 5 \<and> 0 \<le> reviewCount p
                    \<and> (case discount p of None \<Rightarrow> True | Some d \<Rightarrow> 0 < d \<and> d \<le> 100)) ps"

text \<open>A card's star (filled or muted) as the glyph the detail page prints.\<close>

definition star_of :: "bool \<Rightarrow> star_glyph" where
  "star_of b = (if b then Black_Star else White_Star)"

section \<open>Lemmas\<close>

lemma js_slice_replicate_prefix:
  "0 \<le> n \<Longrightarrow> js_slice (replicate 5 x) 0 n = replicate (min (nat n) 5) x"
  by (simp add: js_slice_def js_rel_index_def)

lemma js_slice_from_replicate:
  "0 \<le> n \<Longrightarrow> js_slice_from (replicate 5 x) n = replicate (5 - min (nat n) 5) x"
  by (simp add: js_slice_from_def js_slice_def js_rel_index_def)

lemma renderStars_in_range:
  assumes "0 \<le> \<lfloor>r\<rfloor>"
  shows "renderStars r = replicate (min (nat \<lfloor>r\<rfloor>) 5) Black_Star @ replicate (5 - min (nat \<lfloor>r\<rfloor>) 5) White_Star"
  using assms by (simp add: renderStars_def js_slice_replicate_prefix js_slice_from_replicate)

lemma card_stars_eq:
  "card_stars r = replicate (min (nat \<lfloor>r\<rfloor>) 5) True @ replicate (5 - min (nat \<lfloor>r\<rfloor>) 5) False"
proof (rule nth_equalityI)
  show "length (card_stars r) = length (replicate (min (nat \<lfloor>r\<rfloor>) 5) True @ replicate (5 - min (nat \<lfloor>r\<rfloor>) 5) False)"
    by (simp add: card_stars_def)
next
  fix i assume "i < length (card_stars r)"
  then have "i < 5" by (simp add: card_stars_def)
  then show "card_stars r ! i = (replicate (min (nat \<lfloor>r\<rfloor>) 5) True @ replicate (5 - min (nat \<lfloor>r\<rfloor>) 5) False) ! i"
    by (auto simp: card_stars_def nth_append)
qed

section \<open>Properties\<close>

text \<open>
  C13: the truthiness test on the discount is harmless: the price is always
  \<open>price * (1 - d / 100)\<close> with an absent discount read as 0.
\<close>

theorem discount_price_uniform:
  "discount_price p d = p * (1 - (case d of None \<Rightarrow> 0 | Some v \<Rightarrow> v) / 100)"
  by (simp add: discount_price_def js_truthy_num_def split: option.split)

text \<open>C14: a discount in 0--100 percent gives a price between 0 and the list price.\<close>

theorem discount_price_bounds:
  assumes "0 \<le> p" and "0 \<le> v" and "v \<le> 100"
  shows "0 \<le> discount_price p (Some v) \<and> discount_price p (Some v) \<le> p"
proof -
  have "0 \<le> 1 - v / 100" and "1 - v / 100 \<le> 1"
    using assms(2,3) by simp_all
  then show ?thesis
    using assms(1) by (simp add: discount_price_def mult_left_le mult_nonneg_nonneg)
qed

theorem discount_price_bounds_witness:
  "0 \<le> (79.99::rat) \<and> 0 \<le> (20::rat) \<and> (20::rat) \<le> 100
   \<and> 0 \<le> discount_price 79.99 (Some 20) \<and> discount_price 79.99 (Some 20) \<le> 79.99"
  using discount_price_bounds [of "79.99" 20] by simp

text \<open>\<open>renderStars\<close> always prints five stars, whatever the rating.\<close>

theorem renderStars_length: "length (renderStars r) = 5"
proof -
  have "nat (max 0 (5 + \<lfloor>r\<rfloor>)) \<le> 5" if "r < 0"
    using that by (simp add: nat_le_iff)
  then show ?thesis
    by (simp add: renderStars_def js_slice_from_def js_rel_index_def)
qed

text \<open>
  C15: for a non-negative rating the card's stars and the detail page's stars
  agree. (For a negative rating they do not: \<open>renderStars (-1)\<close> prints four
  black stars, since \<open>slice(0, -1)\<close> counts from the end, while the card shows none.)
\<close>

theorem card_stars_match_renderStars:
  assumes "0 \<le> r"
  shows "map star_of (card_stars r) = renderStars r"
  using assms by (simp add: card_stars_eq renderStars_in_range star_of_def)

theorem card_stars_match_renderStars_witness:
  "(0::rat) \<le> 4.5 \<and> map star_of (card_stars 4.5) = renderStars 4.5"
  using card_stars_match_renderStars [of "4.5"] by simp

theorem renderStars_negative_rating:
  "renderStars (-1) = [Black_Star, Black_Star, Black_Star, Black_Star, White_Star]
   \<and> map star_of (card_stars (-1)) = replicate 5 White_Star"
  by code_simp

text \<open>
  C16: a discount of 0 is falsy for the price but React renders the number 0 for
  \<open>{product.discount && ...}\<close>: the card shows a stray ``0'' where the discount
  badge and where the struck-through list price would be.
\<close>

theorem zero_discount_renders_zero:
  assumes "discount p = Some 0"
  shows "cv_discount_badge (product_card_view p) = JNumber 0
       \<and> cv_list_price (product_card_view p) = JNumber 0
       \<and> cv_price (product_card_view p) = price p"
  using assms by (simp add: product_card_view_def jsx_and_num_def discounted_price_def discount_price_def)

theorem zero_discount_renders_zero_witness:
  "discount \<lparr>pid = ''9'', name = ''Cable'', price = 10, image_src = [], rating = 4,
             reviewCount = 1, discount = Some 0, badge = None\<rparr> = Some 0
   \<and> cv_discount_badge (product_card_view \<lparr>pid = ''9'', name = ''Cable'', price = 10, image_src = [], rating = 4,
             reviewCount = 1, discount = Some 0, badge = None\<rparr>) = JNumber 0
   \<and> cv_list_price (product_card_view \<lparr>pid = ''9'', name = ''Cable'', price = 10, image_src = [], rating = 4,
             reviewCount = 1, discount = Some 0, badge = None\<rparr>) = JNumber 0
   \<and> cv_price (product_card_view \<lparr>pid = ''9'', name = ''Cable'', price = 10, image_src = [], rating = 4,
             reviewCount = 1, discount = Some 0, badge = None\<rparr>) = 10"
  using zero_discount_renders_zero [of "\<lparr>pid = ''9'', name = ''Cable'', price = 10, image_src = [], rating = 4,
             reviewCount = 1, discount = Some 0, badge = None\<rparr>"] by simp

text \<open>The Store and Products mock catalogs satisfy the spec's data constraints.\<close>

theorem mock_catalogs_wf: "catalog_wf store_mockProducts \<and> catalog_wf products_mockProducts"
  by code_simp

end
