(* ===== verification/Cart.thy ===== *)
theory Cart
  imports Catalog
begin

text \<open>
  The cart state of the pages. Each page keeps \<open>const [cartItems, setCartItems]
  = useState<CartItem[]>([])\<close> and changes it only through functional updates
  \<open>setCartItems(prev => ...)\<close>; the updates are the handlers below, one per page
  that has them (\<open>Store.tsx\<close>, \<open>Products.tsx\<close>, \<open>ProductDetail.tsx\<close>). The
  toasts a handler raises are recorded in order next to the cart, so that a handler
  is one function from the state before to the state after. The derived values
  \<open>totalItems\<close> and \<open>totalPrice\<close> (\<open>CartDrawer.tsx\<close>) are the folds of the
  code. An abstraction to a map from product id to quantity states what the
  handlers promise, and \<open>cart_wf\<close> is the invariant the spec names: one line
  per product id, every quantity at least 1.
\<close>

section \<open>Data\<close>

text \<open>\<open>interface CartItem extends Product { quantity: number }\<close>.\<close>

record cart_item = product + quantity :: int

type_synonym cart = "cart_item list"

text \<open>The argument of \<open>toast({title, description})\<close> (hooks/use-toast).\<close>

record toast =
  toast_title :: string
  toast_description :: string

text \<open>
  The state a page's cart handlers touch: the cart and the toasts raised so far.
  Pages extend it with their other state.
\<close>

record cart_state =
  cart_items :: cart
  toasts :: "toast list"

section \<open>The update idioms shared by the handlers\<close>

text \<open>\<open>{ ...product, quantity }\<close>.\<close>

definition new_cart_item :: "product \<Rightarrow> int \<Rightarrow> cart_item" where
  "new_cart_item p q = product.extend p (cart_item.fields q)"

text \<open>\<open>prev.find(item => item.id === k)\<close>.\<close>

definition find_line :: "product_id \<Rightarrow> cart \<Rightarrow> cart_item option" where
  "find_line k c = find (\<lambda>i. pid i = k) c"

text \<open>\<open>prev.map(item => item.id === k ? { ...item, quantity: item.quantity + n } : item)\<close>.\<close>

definition add_quantity :: "product_id \<Rightarrow> int \<Rightarrow> cart \<Rightarrow> cart" where
  "add_quantity k n c = map (\<lambda>i. if pid i = k then i\<lparr>quantity := quantity i + n\<rparr> else i) c"

text \<open>\<open>prev.map(item => item.id === k ? { ...item, quantity: n } : item)\<close>.\<close>

definition set_quantity :: "product_id \<Rightarrow> int \<Rightarrow> cart \<Rightarrow> cart" where
  "set_quantity k n c = map (\<lambda>i. if pid i = k then i\<lparr>quantity := n\<rparr> else i) c"

text \<open>\<open>prev.filter(item => item.id !== k)\<close>.\<close>

definition remove_line :: "product_id \<Rightarrow> cart \<Rightarrow> cart" where
  "remove_line k c = filter (\<lambda>i. pid i \<noteq> k) c"

text \<open>
  The updater of the Products and ProductDetail \<open>handleAddToCart\<close>:
  \<open>existingItem ? prev.map(... quantity: item.quantity + n ...) : [...prev, x]\<close>.
\<close>

definition merge_line :: "product_id \<Rightarrow> int \<Rightarrow> cart_item \<Rightarrow> cart \<Rightarrow> cart" where
  "merge_line k n x c =
     (case find_line k c of Some _ \<Rightarrow> add_quantity k n c | None \<Rightarrow> c @ [x])"

section \<open>Store page handlers (Store.tsx)\<close>

definition added_toast :: "string \<Rightarrow> toast" where
  "added_toast d = \<lparr>toast_title = ''Added to cart'', toast_description = d\<rparr>"

text \<open>
  \<open>handleAddToCart\<close>: the toast is raised inside the updater, with a description
  that depends on whether the product was already in the cart.
\<close>

definition store_handleAddToCart :: "product \<Rightarrow> 'a cart_state_scheme \<Rightarrow> 'a cart_state_scheme" where
  "store_handleAddToCart p s =
     (case find_line (pid p) (cart_items s) of
        Some _ \<Rightarrow>
          s\<lparr>cart_items := add_quantity (pid p) 1 (cart_items s),
            toasts := toasts s @ [added_toast (name p @ '' quantity updated'')]\<rparr>
      | None \<Rightarrow>
          s\<lparr>cart_items := cart_items s @ [new_cart_item p 1],
            toasts := toasts s @ [added_toast (name p @ '' has been added to your cart'')]\<rparr>)"

definition store_handleRemoveItem :: "product_id \<Rightarrow> 'a cart_state_scheme \<Rightarrow> 'a cart_state_scheme" where
  "store_handleRemoveItem k s =
     s\<lparr>cart_items := remove_line k (cart_items s),
       toasts := toasts s @ [\<lparr>toast_title = ''Removed from cart'',
                              toast_description = ''Item has been removed from your cart''\<rparr>]\<rparr>"

text \<open>\<open>handleUpdateQuantity\<close>: a quantity \<open><= 0\<close> goes to \<open>handleRemoveItem\<close>.\<close>

definition store_handleUpdateQuantity ::
  "product_id \<Rightarrow> int \<Rightarrow> 'a cart_state_scheme \<Rightarrow> 'a cart_state_scheme" where
  "store_handleUpdateQuantity k q s =
     (if q \<le> 0 then store_handleRemoveItem k s
      else s\<lparr>cart_items := set_quantity k q (cart_items s)\<rparr>)"

section \<open>Products page handlers (Products.tsx)\<close>

definition products_handleAddToCart :: "product \<Rightarrow> 'a cart_state_scheme \<Rightarrow> 'a cart_state_scheme" where
  "products_handleAddToCart p s =
     s\<lparr>cart_items := merge_line (pid p) 1 (new_cart_item p 1) (cart_items s),
       toasts := toasts s @ [added_toast (name p @ '' has been added to your cart.'')]\<rparr>"

text \<open>\<open>handleUpdateQuantity\<close>: only a quantity \<open>=== 0\<close> removes the line.\<close>

definition products_handleUpdateQuantity ::
  "product_id \<Rightarrow> int \<Rightarrow> 'a cart_state_scheme \<Rightarrow> 'a cart_state_scheme" where
  "products_handleUpdateQuantity k q s =
     (if q = 0 then s\<lparr>cart_items := remove_line k (cart_items s)\<rparr>
      else s\<lparr>cart_items := set_quantity k q (cart_items s)\<rparr>)"

definition products_handleRemoveItem :: "product_id \<Rightarrow> 'a cart_state_scheme \<Rightarrow> 'a cart_state_scheme" where
  "products_handleRemoveItem k s = s\<lparr>cart_items := remove_line k (cart_items s)\<rparr>"

section \<open>Product detail page handlers (ProductDetail.tsx)\<close>

text \<open>
  The line built from the detail product (lines 119--329); \<open>product.images[0]\<close>
  is the first image (the empty string stands for \<open>undefined\<close> when there is
  none; the page's product has three).
\<close>

definition detail_cart_item :: "detail_product \<Rightarrow> int \<Rightarrow> cart_item" where
  "detail_cart_item p q =
     \<lparr>pid = d_id p, name = d_name p, price = d_price p,
      image_src = (case images p of [] \<Rightarrow> [] | img # _ \<Rightarrow> img),
      rating = d_rating p, reviewCount = d_reviewCount p,
      discount = d_discount p, badge = d_badge p, quantity = q\<rparr>"

text \<open>
  \<open>handleAddToCart\<close> adds the page's selected \<open>quantity\<close> \<open>q\<close> of the page's
  \<open>product\<close>, then raises its toast outside the updater.
\<close>

definition detail_handleAddToCart ::
  "detail_product \<Rightarrow> int \<Rightarrow> 'a cart_state_scheme \<Rightarrow> 'a cart_state_scheme" where
  "detail_handleAddToCart p q s =
     s\<lparr>cart_items := merge_line (d_id p) q (detail_cart_item p q) (cart_items s),
       toasts := toasts s @ [added_toast (show_int q @ '' '' @ d_name p @ '' added to your cart.'')]\<rparr>"

definition detail_handleUpdateQuantity ::
  "product_id \<Rightarrow> int \<Rightarrow> 'a cart_state_scheme \<Rightarrow> 'a cart_state_scheme" where
  "detail_handleUpdateQuantity k q s =
     (if q = 0 then s\<lparr>cart_items := remove_line k (cart_items s)\<rparr>
      else s\<lparr>cart_items := set_quantity k q (cart_items s)\<rparr>)"

definition detail_handleRemoveItem :: "product_id \<Rightarrow> 'a cart_state_scheme \<Rightarrow> 'a cart_state_scheme" where
  "detail_handleRemoveItem k s = s\<lparr>cart_items := remove_line k (cart_items s)\<rparr>"

section \<open>Derived values\<close>

text \<open>\<open>cartItems.reduce((sum, item) => sum + item.quantity, 0)\<close>.\<close>

definition total_items :: "cart \<Rightarrow> int" where
  "total_items c = foldl (\<lambda>sum i. sum + quantity i) 0 c"

text \<open>\<open>cartItems.reduce((sum, item) => sum + discounted price * item.quantity, 0)\<close>.\<close>

definition total_price :: "cart \<Rightarrow> money" where
  "total_price c = foldl (\<lambda>sum i. sum + discounted_price i * of_int (quantity i)) 0 c"

section \<open>Abstract cart and invariant\<close>

text \<open>What the cart means: the quantity held for each product id.\<close>

type_synonym abs_cart = "product_id \<rightharpoonup> int"

definition cart_abs :: "cart \<Rightarrow> abs_cart" where
  "cart_abs c = map_of (map (\<lambda>i. (pid i, quantity i)) c)"

definition abs_add :: "product_id \<Rightarrow> int \<Rightarrow> abs_cart \<Rightarrow> abs_cart" where
  "abs_add k n m = m(k \<mapsto> (case m k of None \<Rightarrow> n | Some q \<Rightarrow> q + n))"

definition abs_set :: "product_id \<Rightarrow> int \<Rightarrow> abs_cart \<Rightarrow> abs_cart" where
  "abs_set k n m = (case m k of None \<Rightarrow> m | Some _ \<Rightarrow> m(k \<mapsto> n))"

definition abs_remove :: "product_id \<Rightarrow> abs_cart \<Rightarrow> abs_cart" where
  "abs_remove k m = m(k := None)"

text \<open>The spec's invariant of a cart: one line per product id, quantities \<open>\<ge> 1\<close>.\<close>

definition cart_wf :: "cart \<Rightarrow> bool" where
  "cart_wf c \<longleftrightarrow> distinct (map pid c) \<and> (\<forall>i\<in>set c. 1 \<le> quantity i)"

section \<open>Fixtures for the witnesses\<close>

text \<open>A product of the spec's example: list price 100, discount 20 percent.\<close>

definition sample_product :: product where
  "sample_product =
     \<lparr>pid = ''1'', name = ''Sample'', price = 100, image_src = [], rating = 4,
      reviewCount = 0, discount = Some 20, badge = None\<rparr>"

definition empty_cart_state :: cart_state where
  "empty_cart_state = \<lparr>cart_items = [], toasts = []\<rparr>"

section \<open>Lemma library\<close>

subsection \<open>Folds as sums\<close>

lemma foldl_plus_sum_list:
  fixes f :: "'a \<Rightarrow> 'b::comm_monoid_add"
  shows "foldl (\<lambda>s x. s + f x) a xs = a + sum_list (map f xs)"
  by (induction xs arbitrary: a) (simp_all add: ac_simps)

lemma total_items_sum_list [cart_simps]: "total_items c = sum_list (map quantity c)"
  by (simp add: total_items_def foldl_plus_sum_list)

lemma total_price_sum_list [cart_simps]:
  "total_price c = sum_list (map (\<lambda>i. discounted_price i * of_int (quantity i)) c)"
  by (simp add: total_price_def foldl_plus_sum_list)

lemma total_items_Cons: "total_items (i # c) = quantity i + total_items c"
  by (simp add: total_items_sum_list)

subsection \<open>The update idioms\<close>

lemma new_cart_item_simps [simp]:
  "pid (new_cart_item p q) = pid p" "quantity (new_cart_item p q) = q"
  "name (new_cart_item p q) = name p" "price (new_cart_item p q) = price p"
  "discount (new_cart_item p q) = discount p"
  "(new_cart_item p q)\<lparr>quantity := q'\<rparr> = new_cart_item p q'"
  by (simp_all add: new_cart_item_def product.defs cart_item.defs)

lemma detail_cart_item_simps [simp]:
  "pid (detail_cart_item p q) = d_id p" "quantity (detail_cart_item p q) = q"
  by (simp_all add: detail_cart_item_def)

lemma map_pid_add_quantity [simp]: "map pid (add_quantity k n c) = map pid c"
  by (induction c) (simp_all add: add_quantity_def)

lemma map_pid_set_quantity [simp]: "map pid (set_quantity k n c) = map pid c"
  by (induction c) (simp_all add: set_quantity_def)

lemma find_line_None_iff [cart_simps]: "find_line k c = None \<longleftrightarrow> k \<notin> set (map pid c)"
  by (auto simp: find_line_def find_None_iff)

lemma in_set_find_line: "k \<in> set (map pid c) \<longleftrightarrow> find_line k c \<noteq> None"
  by (simp add: find_line_None_iff)

lemma merge_line_cases:
  "merge_line k n x c = (if k \<in> set (map pid c) then add_quantity k n c else c @ [x])"
  unfolding merge_line_def in_set_find_line by (simp split: option.split)

lemma store_add_cart_items [cart_simps]:
  "cart_items (store_handleAddToCart p s) = merge_line (pid p) 1 (new_cart_item p 1) (cart_items s)"
  by (simp add: store_handleAddToCart_def merge_line_def split: option.split)

lemma store_update_cart_items [cart_simps]:
  "cart_items (store_handleUpdateQuantity k q s)
     = (if q \<le> 0 then remove_line k (cart_items s) else set_quantity k q (cart_items s))"
  by (simp add: store_handleUpdateQuantity_def store_handleRemoveItem_def)

lemma page_cart_items [cart_simps]:
  "cart_items (store_handleRemoveItem k s) = remove_line k (cart_items s)"
  "cart_items (products_handleAddToCart p s) = merge_line (pid p) 1 (new_cart_item p 1) (cart_items s)"
  "cart_items (products_handleUpdateQuantity k q s)
     = (if q = 0 then remove_line k (cart_items s) else set_quantity k q (cart_items s))"
  "cart_items (products_handleRemoveItem k s) = remove_line k (cart_items s)"
  "cart_items (detail_handleAddToCart dp q s) = merge_line (d_id dp) q (detail_cart_item dp q) (cart_items s)"
  "cart_items (detail_handleUpdateQuantity k q s)
     = (if q = 0 then remove_line k (cart_items s) else set_quantity k q (cart_items s))"
  "cart_items (detail_handleRemoveItem k s) = remove_line k (cart_items s)"
  by (simp_all add: store_handleRemoveItem_def products_handleAddToCart_def
      products_handleUpdateQuantity_def products_handleRemoveItem_def detail_handleAddToCart_def
      detail_handleUpdateQuantity_def detail_handleRemoveItem_def)

subsection \<open>Abstraction\<close>

lemma cart_abs_Nil [simp]: "cart_abs [] = Map.empty"
  by (simp add: cart_abs_def)

lemma cart_abs_Cons [simp]: "cart_abs (i # c) = (cart_abs c)(pid i \<mapsto> quantity i)"
  by (simp add: cart_abs_def)

lemma dom_cart_abs [cart_simps]: "dom (cart_abs c) = set (map pid c)"
  by (simp add: cart_abs_def dom_map_of_conv_image_fst image_image)

lemma cart_abs_snoc:
  "cart_abs (c @ [i]) = (\<lambda>k. case cart_abs c k of None \<Rightarrow> (if k = pid i then Some (quantity i) else None) | Some q \<Rightarrow> Some q)"
  by (induction c) (auto simp: fun_eq_iff split: option.splits)

lemma cart_abs_add_quantity [cart_simps]:
  "cart_abs (add_quantity k n c) = (case cart_abs c k of None \<Rightarrow> cart_abs c | Some q \<Rightarrow> (cart_abs c)(k \<mapsto> q + n))"
  by (induction c) (auto simp: add_quantity_def fun_eq_iff split: option.splits)

lemma cart_abs_set_quantity [cart_simps]:
  "cart_abs (set_quantity k n c) = abs_set k n (cart_abs c)"
  by (induction c) (auto simp: set_quantity_def abs_set_def fun_eq_iff split: option.splits)

lemma cart_abs_remove_line [cart_simps]:
  "cart_abs (remove_line k c) = abs_remove k (cart_abs c)"
  by (induction c) (auto simp: remove_line_def abs_remove_def fun_eq_iff)

lemma cart_abs_merge_line [cart_simps]:
  assumes "pid x = k" and "quantity x = n"
  shows "cart_abs (merge_line k n x c) = abs_add k n (cart_abs c)"
proof (cases "k \<in> set (map pid c)")
  case True
  then obtain q where "cart_abs c k = Some q"
    by (metis domD dom_cart_abs)
  with True show ?thesis
    by (simp add: merge_line_cases cart_abs_add_quantity abs_add_def)
next
  case False
  then have "cart_abs c k = None"
    by (metis domIff dom_cart_abs)
  with False assms show ?thesis
    by (simp add: merge_line_cases cart_abs_snoc abs_add_def fun_eq_iff split: option.split)
qed

lemma add_quantity_absent [cart_simps]: "k \<notin> set (map pid c) \<Longrightarrow> add_quantity k n c = c"
  by (induction c) (auto simp: add_quantity_def)

lemma add_quantity_append [cart_simps]:
  "add_quantity k n (xs @ ys) = add_quantity k n xs @ add_quantity k n ys"
  "add_quantity k n [x] = [if pid x = k then x\<lparr>quantity := quantity x + n\<rparr> else x]"
  by (simp_all add: add_quantity_def)

lemma remove_line_absent [cart_simps]: "k \<notin> set (map pid c) \<Longrightarrow> remove_line k c = c"
  by (induction c) (auto simp: remove_line_def)

lemma cart_abs_Some_member: "cart_abs c k = Some q \<Longrightarrow> \<exists>i\<in>set c. pid i = k \<and> quantity i = q"
  by (induction c) (auto split: if_splits)

subsection \<open>Invariant\<close>

lemma cart_wf_abs_pos: "cart_wf c \<Longrightarrow> cart_abs c k = Some q \<Longrightarrow> 1 \<le> q"
  by (auto simp: cart_wf_def dest: cart_abs_Some_member)

lemma cart_wf_add_quantity:
  "cart_wf c \<Longrightarrow> 0 \<le> n \<Longrightarrow> cart_wf (add_quantity k n c)"
  unfolding cart_wf_def by simp (auto simp: add_quantity_def)

lemma cart_wf_set_quantity:
  "cart_wf c \<Longrightarrow> 1 \<le> n \<Longrightarrow> cart_wf (set_quantity k n c)"
  unfolding cart_wf_def by simp (auto simp: set_quantity_def)

lemma cart_wf_remove_line:
  "cart_wf c \<Longrightarrow> cart_wf (remove_line k c)"
  by (auto simp: cart_wf_def remove_line_def distinct_map_filter)

lemma cart_wf_merge_line:
  "cart_wf c \<Longrightarrow> pid x = k \<Longrightarrow> 1 \<le> quantity x \<Longrightarrow> 0 \<le> n \<Longrightarrow> cart_wf (merge_line k n x c)"
  by (auto simp: merge_line_cases cart_wf_add_quantity) (auto simp: cart_wf_def)

subsection \<open>Counting\<close>

lemma fold_store_remove_cart_items:
  "cart_items (fold store_handleRemoveItem ks s) = filter (\<lambda>i. pid i \<notin> set ks) (cart_items s)"
proof (induction ks arbitrary: s)
  case Nil
  then show ?case by simp
next
  case (Cons k ks)
  then show ?case
    by (simp add: page_cart_items remove_line_def conj_commute)
qed

lemma discounted_price_quantity_update [simp]:
  "discounted_price (i\<lparr>quantity := q\<rparr>) = discounted_price i"
  by (simp add: discounted_price_def)

lemma total_price_merge_line:
  assumes "distinct (map pid c)" and "pid x = k"
    and "\<forall>i\<in>set c. pid i = k \<longrightarrow> discounted_price i = discounted_price x"
  shows "total_price (merge_line k n x c)
       = total_price c + discounted_price x * of_int (if k \<in> set (map pid c) then n else quantity x)"
proof (cases "k \<in> set (map pid c)")
  case True
  then have "filter (\<lambda>i. pid i = k) c \<noteq> []"
    by (simp add: filter_empty_conv image_iff) (metis)
  then obtain y where y: "filter (\<lambda>i. pid i = k) c = [y]"
    using filter_id_unique_key [OF assms(1), of k] by blast
  have "y \<in> set (filter (\<lambda>i. pid i = k) c)"
    using y by simp
  then have "y \<in> set c" and "pid y = k"
    by simp_all
  then have "discounted_price y = discounted_price x"
    using assms(3) by blast
  let ?g = "\<lambda>i. discounted_price i * of_int (quantity i)"
  have "total_price (add_quantity k n c)
        = total_price c + sum_list (map (\<lambda>i. ?g (i\<lparr>quantity := quantity i + n\<rparr>) - ?g i) (filter (\<lambda>i. pid i = k) c))"
    unfolding add_quantity_def total_price_sum_list by (rule sum_list_map_cond_update)
  also have "\<dots> = total_price c + discounted_price y * of_int n"
    using y by (simp add: algebra_simps)
  finally show ?thesis
    using True \<open>discounted_price y = discounted_price x\<close> by (simp add: merge_line_cases)
next
  case False
  then show ?thesis
    by (simp add: merge_line_cases total_price_sum_list)
qed

section \<open>Properties\<close>

text \<open>C7: the item count is the sum of the abstract quantities.\<close>

theorem total_items_refines:
  "distinct (map pid c) \<Longrightarrow> total_items c = (\<Sum>k\<in>dom (cart_abs c). the (cart_abs c k))"
proof (induction c)
  case Nil
  then show ?case by (simp add: total_items_sum_list)
next
  case (Cons i c)
  then have notin: "pid i \<notin> dom (cart_abs c)" and IH: "total_items c = (\<Sum>k\<in>dom (cart_abs c). the (cart_abs c k))"
    by (simp_all add: dom_cart_abs)
  have fin: "finite (dom (cart_abs c))"
    by (simp add: dom_cart_abs)
  have same: "(\<Sum>k\<in>dom (cart_abs c). the (((cart_abs c)(pid i \<mapsto> quantity i)) k))
        = (\<Sum>k\<in>dom (cart_abs c). the (cart_abs c k))"
    using notin by (intro sum.cong) auto
  have "(\<Sum>k\<in>dom (cart_abs (i # c)). the (cart_abs (i # c) k))
        = (\<Sum>k\<in>insert (pid i) (dom (cart_abs c)). the (((cart_abs c)(pid i \<mapsto> quantity i)) k))"
    by simp
  also have "\<dots> = quantity i + (\<Sum>k\<in>dom (cart_abs c). the (((cart_abs c)(pid i \<mapsto> quantity i)) k))"
    by (subst sum.insert [OF fin notin]) simp
  finally have "(\<Sum>k\<in>dom (cart_abs (i # c)). the (cart_abs (i # c) k)) = quantity i + total_items c"
    using same IH by simp
  then show ?case
    by (simp only: total_items_Cons)
qed

text \<open>C1: adding a product is the abstract increment of its quantity.\<close>

theorem store_add_refines:
  "cart_abs (cart_items (store_handleAddToCart p s)) = abs_add (pid p) 1 (cart_abs (cart_items s))"
  by (simp add: store_add_cart_items cart_abs_merge_line)

text \<open>C2: adding a product twice to a cart without it gives one new line of quantity 2.\<close>

theorem store_add_twice_one_line:
  assumes "pid p \<notin> set (map pid (cart_items s))"
  shows "cart_items (store_handleAddToCart p (store_handleAddToCart p s)) = cart_items s @ [new_cart_item p 2]"
  using assms by (simp add: store_add_cart_items merge_line_cases add_quantity_append add_quantity_absent)

theorem store_add_twice_one_line_witness:
  "pid sample_product \<notin> set (map pid (cart_items empty_cart_state))
   \<and> cart_items (store_handleAddToCart sample_product (store_handleAddToCart sample_product empty_cart_state))
     = [new_cart_item sample_product 2]"
  using store_add_twice_one_line [of sample_product empty_cart_state]
  by (simp add: empty_cart_state_def)

text \<open>C3: a quantity of 0 or below removes the line (Store page).\<close>

theorem store_update_nonpos_removes:
  assumes "q \<le> 0"
  shows "cart_items (store_handleUpdateQuantity k q s) = remove_line k (cart_items s)
         \<and> k \<notin> set (map pid (cart_items (store_handleUpdateQuantity k q s)))"
  using assms by (auto simp: store_update_cart_items remove_line_def)

theorem store_update_nonpos_removes_witness:
  "(-1::int) \<le> 0 \<and> cart_items (store_handleUpdateQuantity ''1'' (-1) (empty_cart_state\<lparr>cart_items := [new_cart_item sample_product 3]\<rparr>)) = []
   \<and> ''1'' \<notin> set (map pid (cart_items (store_handleUpdateQuantity ''1'' (-1) (empty_cart_state\<lparr>cart_items := [new_cart_item sample_product 3]\<rparr>))))"
  using store_update_nonpos_removes [of "-1" "''1''" "empty_cart_state\<lparr>cart_items := [new_cart_item sample_product 3]\<rparr>"]
  by (simp add: remove_line_def sample_product_def)

text \<open>C4: every Store handler keeps the cart invariant, for any arguments.\<close>

theorem store_handlers_preserve_wf:
  assumes "cart_wf (cart_items s)"
  shows "cart_wf (cart_items (store_handleAddToCart p s))
       \<and> cart_wf (cart_items (store_handleUpdateQuantity k q s))
       \<and> cart_wf (cart_items (store_handleRemoveItem k s))"
  using assms
  by (simp add: store_add_cart_items store_update_cart_items page_cart_items
      cart_wf_merge_line cart_wf_set_quantity cart_wf_remove_line)

theorem store_handlers_preserve_wf_witness:
  "cart_wf (cart_items empty_cart_state)
   \<and> cart_wf (cart_items (store_handleAddToCart sample_product empty_cart_state))
   \<and> cart_wf (cart_items (store_handleUpdateQuantity ''1'' 0 empty_cart_state))
   \<and> cart_wf (cart_items (store_handleRemoveItem ''1'' empty_cart_state))"
proof -
  have "cart_wf (cart_items empty_cart_state)"
    by (simp add: empty_cart_state_def cart_wf_def)
  then show ?thesis
    using store_handlers_preserve_wf [of empty_cart_state sample_product "''1''" 0] by simp
qed

text \<open>
  C5: when the cart holds the added product at its own price (as every line made
  from the catalog does), adding it raises the drawer's total by exactly its
  discounted price, whether it appends a line or increments one.
\<close>

theorem store_add_total_price:
  assumes "cart_wf (cart_items s)"
    and "\<forall>i\<in>set (cart_items s). pid i = pid p \<longrightarrow> discounted_price i = discounted_price p"
  shows "total_price (cart_items (store_handleAddToCart p s)) = total_price (cart_items s) + discounted_price p"
proof -
  have d: "distinct (map pid (cart_items s))" using assms(1) by (simp add: cart_wf_def)
  have x: "discounted_price (new_cart_item p 1) = discounted_price p"
    by (simp add: discounted_price_def)
  have "total_price (merge_line (pid p) 1 (new_cart_item p 1) (cart_items s))
        = total_price (cart_items s) + discounted_price (new_cart_item p 1)
            * of_int (if pid p \<in> set (map pid (cart_items s)) then 1 else quantity (new_cart_item p 1))"
    using assms(2) x by (intro total_price_merge_line [OF d]) simp_all
  then show ?thesis
    using x by (simp add: store_add_cart_items)
qed

theorem store_add_total_price_witness:
  "cart_wf (cart_items (empty_cart_state\<lparr>cart_items := [new_cart_item sample_product 2]\<rparr>))
   \<and> discounted_price (new_cart_item sample_product 2) = discounted_price sample_product
   \<and> total_price (cart_items (store_handleAddToCart sample_product (empty_cart_state\<lparr>cart_items := [new_cart_item sample_product 2]\<rparr>)))
     = total_price (cart_items (empty_cart_state\<lparr>cart_items := [new_cart_item sample_product 2]\<rparr>)) + discounted_price sample_product"
proof -
  have wf: "cart_wf (cart_items (empty_cart_state\<lparr>cart_items := [new_cart_item sample_product 2]\<rparr>))"
    by (simp add: cart_wf_def)
  have d: "discounted_price (new_cart_item sample_product 2) = discounted_price sample_product"
    by (simp add: discounted_price_def)
  then have same: "\<forall>i\<in>set (cart_items (empty_cart_state\<lparr>cart_items := [new_cart_item sample_product 2]\<rparr>)).
        pid i = pid sample_product \<longrightarrow> discounted_price i = discounted_price sample_product"
    by simp
  show ?thesis
    using store_add_total_price [OF wf same] wf d by blast
qed

text \<open>C6: removing an id that is not in the cart leaves the cart unchanged.\<close>

theorem store_remove_absent_noop:
  assumes "k \<notin> set (map pid (cart_items s))"
  shows "cart_items (store_handleRemoveItem k s) = cart_items s"
  using assms by (simp add: page_cart_items remove_line_absent)

theorem store_remove_absent_noop_witness:
  "''7'' \<notin> set (map pid (cart_items (empty_cart_state\<lparr>cart_items := [new_cart_item sample_product 3]\<rparr>)))
   \<and> cart_items (store_handleRemoveItem ''7'' (empty_cart_state\<lparr>cart_items := [new_cart_item sample_product 3]\<rparr>))
     = [new_cart_item sample_product 3]"
  using store_remove_absent_noop [of "''7''" "empty_cart_state\<lparr>cart_items := [new_cart_item sample_product 3]\<rparr>"]
  by (simp add: sample_product_def)

text \<open>C10: the Products page's add updater is the Store page's.\<close>

theorem products_add_eq_store_add:
  "cart_items (products_handleAddToCart p s) = cart_items (store_handleAddToCart p s)"
  by (simp add: page_cart_items store_add_cart_items)

text \<open>C11: the detail page's add is the abstract increment by the selected quantity.\<close>

theorem detail_add_refines:
  "cart_abs (cart_items (detail_handleAddToCart dp q s)) = abs_add (d_id dp) q (cart_abs (cart_items s))"
  by (simp add: page_cart_items cart_abs_merge_line)

text \<open>C9: on the Products page a negative quantity is stored, not removed.\<close>

theorem products_update_negative_kept:
  assumes "q < 0" and "k \<in> set (map pid (cart_items s))"
  shows "cart_abs (cart_items (products_handleUpdateQuantity k q s)) k = Some q
       \<and> \<not> cart_wf (cart_items (products_handleUpdateQuantity k q s))"
proof -
  obtain q0 where "cart_abs (cart_items s) k = Some q0"
    using assms(2) by (metis domD dom_cart_abs)
  then have abs: "cart_abs (cart_items (products_handleUpdateQuantity k q s)) k = Some q"
    using assms(1) by (simp add: page_cart_items cart_abs_set_quantity abs_set_def)
  with assms(1) show ?thesis
    using cart_wf_abs_pos by fastforce
qed

theorem products_update_negative_kept_witness:
  "(-1::int) < 0 \<and> ''1'' \<in> set (map pid (cart_items (empty_cart_state\<lparr>cart_items := [new_cart_item sample_product 2]\<rparr>)))
   \<and> cart_abs (cart_items (products_handleUpdateQuantity ''1'' (-1) (empty_cart_state\<lparr>cart_items := [new_cart_item sample_product 2]\<rparr>))) ''1'' = Some (-1)
   \<and> \<not> cart_wf (cart_items (products_handleUpdateQuantity ''1'' (-1) (empty_cart_state\<lparr>cart_items := [new_cart_item sample_product 2]\<rparr>)))"
  using products_update_negative_kept [of "-1" "''1''" "empty_cart_state\<lparr>cart_items := [new_cart_item sample_product 2]\<rparr>"]
  by (simp add: sample_product_def)

text \<open>Removing every line of the cart, one after the other, empties it.\<close>

theorem store_remove_all_empties:
  "cart_items (fold store_handleRemoveItem (map pid (cart_items s)) s) = []
   \<and> total_items (cart_items (fold store_handleRemoveItem (map pid (cart_items s)) s)) = 0"
  by (simp add: fold_store_remove_cart_items total_items_sum_list)

theorem total_items_refines_witness:
  "distinct (map pid [new_cart_item sample_product 3])
   \<and> total_items [new_cart_item sample_product 3]
     = (\<Sum>k\<in>dom (cart_abs [new_cart_item sample_product 3]). the (cart_abs [new_cart_item sample_product 3] k))"
  using total_items_refines [of "[new_cart_item sample_product 3]"] by simp

text \<open>C8: the Store page's quantity update is the abstract set, or removal at 0 and below.\<close>

theorem store_update_refines:
  "cart_abs (cart_items (store_handleUpdateQuantity k q s))
     = (if q \<le> 0 then abs_remove k (cart_abs (cart_items s)) else abs_set k q (cart_abs (cart_items s)))"
  by (simp add: store_update_cart_items cart_abs_remove_line cart_abs_set_quantity)

text \<open>C12: the detail page's handlers keep the invariant for a selected quantity of at least 1 and a non-negative update.\<close>

theorem detail_handlers_preserve_wf:
  assumes "cart_wf (cart_items s)" and "1 \<le> q" and "0 \<le> n"
  shows "cart_wf (cart_items (detail_handleAddToCart dp q s))
       \<and> cart_wf (cart_items (detail_handleUpdateQuantity k n s))
       \<and> cart_wf (cart_items (detail_handleRemoveItem k s))"
  using assms
  by (simp add: page_cart_items cart_wf_merge_line cart_wf_set_quantity cart_wf_remove_line)

theorem detail_handlers_preserve_wf_witness:
  "cart_wf (cart_items empty_cart_state) \<and> (1::int) \<le> 1 \<and> (0::int) \<le> 2
   \<and> cart_wf (cart_items (detail_handleAddToCart detail_mockProduct 1 empty_cart_state))
   \<and> cart_wf (cart_items (detail_handleUpdateQuantity ''1'' 2 empty_cart_state))
   \<and> cart_wf (cart_items (detail_handleRemoveItem ''1'' empty_cart_state))"
proof -
  have "cart_wf (cart_items empty_cart_state)"
    by (simp add: empty_cart_state_def cart_wf_def)
  then show ?thesis
    using detail_handlers_preserve_wf [of empty_cart_state 1 2 detail_mockProduct "''1''"] by simp
qed

end
