(* ===== verification/Drawer.thy ===== *)
theory Drawer
  imports Cart
begin

text \<open>
  The cart presentation and the header: \<open>src/src/components/CartDrawer.tsx\<close> and
  \<open>src/src/components/Header.tsx\<close>. Both are functions of props; what they
  contribute to the program's behaviour is what they render from the cart (the
  badge count, one line per cart item with its discounted price, the total) and
  which callback each click calls. A click is a \<open>drawer_click\<close> or a
  \<open>header_click\<close>; the callback it triggers is a \<open>drawer_call\<close> (or
  \<open>None\<close> when the button is absent or disabled), which the page then routes to
  its own handlers (theory \<open>Pages\<close>). The header's own state is its mobile
  menu flag.
\<close>

section \<open>CartDrawer\<close>

text \<open>One rendered cart line (lines 74--141).\<close>

record drawer_line =
  dl_id :: product_id
  dl_name :: string
  dl_price :: money
  dl_list_price :: "money jsx_child"
  dl_quantity :: int
  dl_minus_disabled :: bool

text \<open>The data the drawer renders (lines 27--172); \<open>dv_total\<close> is the footer, shown only for a non-empty cart.\<close>

record drawer_view =
  dv_badge :: int
  dv_lines :: "drawer_line list"
  dv_total :: "money option"

definition drawer_line_view :: "cart_item \<Rightarrow> drawer_line" where
  "drawer_line_view i =
     \<lparr>dl_id = pid i, dl_name = name i, dl_price = discounted_price i,
      dl_list_price = jsx_and_num (discount i) (\<lambda>_. price i),
      dl_quantity = quantity i, dl_minus_disabled = quantity i \<le> 1\<rparr>"

text \<open>\<open>if (!isOpen) return null\<close>.\<close>

definition cart_drawer_view :: "bool \<Rightarrow> cart \<Rightarrow> drawer_view option" where
  "cart_drawer_view isOpen c =
     (if \<not> isOpen then None
      else Some \<lparr>dv_badge = total_items c, dv_lines = map drawer_line_view c,
                 dv_total = (if 0 < length c then Some (total_price c) else None)\<rparr>)"

text \<open>
  The buttons of the drawer. \<open>Minus k\<close>, \<open>Plus k\<close> and \<open>Trash k\<close> are the
  buttons of the \<open>k\<close>-th rendered line; \<open>ContinueShopping\<close> is the button of
  the empty state or of the footer (both call \<open>onClose\<close>); \<open>Checkout\<close> has no
  handler.
\<close>

datatype drawer_click =
  Backdrop | CloseButton | ContinueShopping | Checkout | Minus nat | Plus nat | Trash nat

datatype drawer_call = OnClose | OnUpdateQuantity product_id int | OnRemoveItem product_id

text \<open>
  The callback a click calls: none when the drawer is closed (nothing is rendered),
  when the line does not exist, when the button is \<open>disabled={item.quantity <= 1}\<close>,
  or for Checkout.
\<close>

definition drawer_dispatch :: "bool \<Rightarrow> cart \<Rightarrow> drawer_click \<Rightarrow> drawer_call option" where
  "drawer_dispatch isOpen c ev =
     (if \<not> isOpen then None
      else case ev of
        Backdrop \<Rightarrow> Some OnClose
      | CloseButton \<Rightarrow> Some OnClose
      | ContinueShopping \<Rightarrow> Some OnClose
      | Checkout \<Rightarrow> None
      | Minus k \<Rightarrow>
          (if k < length c \<and> \<not> quantity (c ! k) \<le> 1
           then Some (OnUpdateQuantity (pid (c ! k)) (quantity (c ! k) - 1)) else None)
      | Plus k \<Rightarrow>
          (if k < length c then Some (OnUpdateQuantity (pid (c ! k)) (quantity (c ! k) + 1)) else None)
      | Trash k \<Rightarrow>
          (if k < length c then Some (OnRemoveItem (pid (c ! k))) else None))"

section \<open>Header\<close>

text \<open>\<open>const [isMenuOpen, setIsMenuOpen] = useState(false)\<close>.\<close>

record header_state =
  isMenuOpen :: bool

definition header_init :: header_state where
  "header_init = \<lparr>isMenuOpen = False\<rparr>"

text \<open>\<open>{cartItemsCount > 0 && <Badge>{cartItemsCount}</Badge>}\<close>.\<close>

definition header_badge :: "int \<Rightarrow> int option" where
  "header_badge n = (if 0 < n then Some n else None)"

datatype header_click = CartButton | MenuButton

text \<open>
  A click on the header: the new header state and whether \<open>onCartClick\<close> was
  called. The navigation links have \<open>href="#"\<close> and the search inputs no handler.
\<close>

definition header_handle :: "header_state \<Rightarrow> header_click \<Rightarrow> header_state \<times> bool" where
  "header_handle h c =
     (case c of
        CartButton \<Rightarrow> (h, True)
      | MenuButton \<Rightarrow> (h\<lparr>isMenuOpen := \<not> isMenuOpen h\<rparr>, False))"

section \<open>Specification-level predicates\<close>

text \<open>Prices the spec allows: list price \<open>\<ge> 0\<close>, discount percentage in 0--100.\<close>

definition prices_ok :: "cart \<Rightarrow> bool" where
  "prices_ok c \<longleftrightarrow> list_all (\<lambda>i. 0 \<le> price i \<and> (case discount i of None \<Rightarrow> True | Some d \<Rightarrow> 0 \<le> d \<and> d \<le> 100)) c"

section \<open>Lemmas\<close>

lemma discounted_price_between:
  assumes "0 \<le> price i" and "case discount i of None \<Rightarrow> True | Some d \<Rightarrow> 0 \<le> d \<and> d \<le> 100"
  shows "0 \<le> discounted_price i \<and> discounted_price i \<le> price i"
  using assms
  by (auto simp: discounted_price_def discount_price_def mult_left_le split: option.splits)

lemma drawer_dispatch_update:
  assumes "drawer_dispatch b c ev = Some (OnUpdateQuantity k q)"
  shows "\<exists>j<length c. k = pid (c ! j) \<and> (q = quantity (c ! j) + 1 \<or> (1 < quantity (c ! j) \<and> q = quantity (c ! j) - 1))"
  using assms by (auto simp: drawer_dispatch_def split: drawer_click.splits if_splits)

lemma cart_wf_Cons: "cart_wf (i # c) \<longleftrightarrow> pid i \<notin> set (map pid c) \<and> 1 \<le> quantity i \<and> cart_wf c"
  by (auto simp: cart_wf_def)

lemma total_items_wf_pos: "cart_wf c \<Longrightarrow> 0 \<le> total_items c \<and> (c \<noteq> [] \<longrightarrow> 0 < total_items c)"
  by (induction c) (auto simp: cart_wf_Cons total_items_Cons total_items_sum_list)

section \<open>Properties\<close>

text \<open>
  C17: in a well-formed cart every quantity update the drawer can issue is for a
  line of the cart and is at least 1: the decrement button is disabled at 1, so
  the drawer never asks a page to store 0 or a negative quantity.
\<close>

theorem drawer_update_calls_positive:
  assumes "cart_wf c" and "drawer_dispatch b c ev = Some (OnUpdateQuantity k q)"
  shows "1 \<le> q \<and> k \<in> set (map pid c)"
proof -
  from drawer_dispatch_update [OF assms(2)] obtain j where j: "j < length c" "k = pid (c ! j)"
    and q: "q = quantity (c ! j) + 1 \<or> (1 < quantity (c ! j) \<and> q = quantity (c ! j) - 1)"
    by blast
  have "1 \<le> quantity (c ! j)"
    using assms(1) j(1) by (auto simp: cart_wf_def)
  with q j show ?thesis
    by auto
qed

theorem drawer_update_calls_positive_witness:
  "cart_wf [new_cart_item sample_product 2] \<and> drawer_dispatch True [new_cart_item sample_product 2] (Minus 0) = Some (OnUpdateQuantity ''1'' 1)
   \<and> 1 \<le> (1::int) \<and> ''1'' \<in> set (map pid [new_cart_item sample_product 2])"
proof -
  have wf: "cart_wf [new_cart_item sample_product 2]" by (simp add: cart_wf_def sample_product_def)
  have ev: "drawer_dispatch True [new_cart_item sample_product 2] (Minus 0) = Some (OnUpdateQuantity ''1'' 1)"
    by (simp add: drawer_dispatch_def sample_product_def)
  show ?thesis using drawer_update_calls_positive [OF wf ev] wf ev by simp
qed

text \<open>
  C18: with list prices \<open>\<ge> 0\<close> and discounts in 0--100 percent, the drawer's
  total lies between 0 and the undiscounted total.
\<close>

theorem total_price_bounds:
  assumes "cart_wf c" and "prices_ok c"
  shows "0 \<le> total_price c \<and> total_price c \<le> sum_list (map (\<lambda>i. price i * of_int (quantity i)) c)"
  using assms
proof (induction c)
  case Nil
  then show ?case by (simp add: total_price_sum_list)
next
  case (Cons i c)
  have tail: "cart_wf c" "prices_ok c"
    using Cons.prems by (auto simp: cart_wf_def prices_ok_def)
  have q: "0 \<le> (of_int (quantity i) :: rat)"
    using Cons.prems by (simp add: cart_wf_def)
  have d: "0 \<le> discounted_price i \<and> discounted_price i \<le> price i"
    using Cons.prems by (intro discounted_price_between) (simp_all add: prices_ok_def)
  then have "0 \<le> discounted_price i * of_int (quantity i)"
    and "discounted_price i * of_int (quantity i) \<le> price i * of_int (quantity i)"
    using q by (simp_all add: mult_right_mono)
  with Cons.IH [OF tail] show ?case
    by (simp add: total_price_sum_list)
qed

theorem total_price_bounds_witness:
  "cart_wf [new_cart_item sample_product 3] \<and> prices_ok [new_cart_item sample_product 3]
   \<and> 0 \<le> total_price [new_cart_item sample_product 3] \<and> total_price [new_cart_item sample_product 3] \<le> sum_list (map (\<lambda>i. price i * of_int (quantity i)) [new_cart_item sample_product 3])"
proof -
  have wf: "cart_wf [new_cart_item sample_product 3]" by (simp add: cart_wf_def sample_product_def)
  have ok: "prices_ok [new_cart_item sample_product 3]" by (simp add: prices_ok_def sample_product_def)
  show ?thesis using total_price_bounds [OF wf ok] wf ok by simp
qed

text \<open>C19: for a well-formed cart the header shows its badge exactly when the cart is not empty.\<close>

theorem header_badge_iff_nonempty:
  assumes "cart_wf c"
  shows "header_badge (total_items c) = None \<longleftrightarrow> c = []"
  using total_items_wf_pos [OF assms] by (auto simp: header_badge_def total_items_sum_list)

theorem header_badge_iff_nonempty_witness:
  "cart_wf [new_cart_item sample_product 3] \<and> (header_badge (total_items [new_cart_item sample_product 3]) = None \<longleftrightarrow> [new_cart_item sample_product 3] = [])"
proof -
  have wf: "cart_wf [new_cart_item sample_product 3]" by (simp add: cart_wf_def sample_product_def)
  show ?thesis using header_badge_iff_nonempty [OF wf] wf by simp
qed

end
