(* ===== verification/Listing.thy ===== *)
theory Listing
  imports Catalog "HOL-Library.List_Lexorder" "HOL-Library.Char_ord"
begin

text \<open>
  The Products page's catalog listing (\<open>src/src/pages/Products.tsx\<close>, lines
  123--141): \<open>[...mockProducts].sort(comparator)\<close> chosen by the \<open>sortBy\<close>
  state, then \<open>.filter(...)\<close> chosen by the \<open>filterBy\<close> state.
  \<open>Array.prototype.sort\<close> is stable (ECMAScript 2019) and, for a comparator that
  is consistent, its result is determined: the stable sorted permutation. It is
  modelled as insertion sort with the comparator, \<open>js_sort\<close>. The default branch
  compares names with \<open>localeCompare\<close>; it is modelled by the code-unit order of
  strings, which is also the locale order on the ASCII names of the catalog
  (collation of other scripts or of case differences is not modelled).
\<close>

section \<open>JavaScript's sort\<close>

text \<open>Insert \<open>x\<close> before the first element it does not compare greater than.\<close>

fun insort_cmp :: "('a \<Rightarrow> 'a \<Rightarrow> rat) \<Rightarrow> 'a \<Rightarrow> 'a list \<Rightarrow> 'a list" where
  "insort_cmp cmp x [] = [x]"
| "insort_cmp cmp x (y # ys) = (if cmp x y \<le> 0 then x # y # ys else y # insort_cmp cmp x ys)"

definition js_sort :: "('a \<Rightarrow> 'a \<Rightarrow> rat) \<Rightarrow> 'a list \<Rightarrow> 'a list" where
  "js_sort cmp xs = foldr (insort_cmp cmp) xs []"

text \<open>\<open>a.localeCompare(b)\<close>: negative, zero or positive.\<close>

definition locale_compare :: "string \<Rightarrow> string \<Rightarrow> rat" where
  "locale_compare a b = (if a < b then -1 else if a = b then 0 else 1)"

section \<open>Sorting and filtering the catalog\<close>

text \<open>The comparator of lines 123--134, by \<open>sortBy\<close>.\<close>

definition product_compare :: "string \<Rightarrow> product \<Rightarrow> product \<Rightarrow> rat" where
  "product_compare sortBy a b =
     (if sortBy = ''price-low'' then price a - price b
      else if sortBy = ''price-high'' then price b - price a
      else if sortBy = ''rating'' then rating b - rating a
      else locale_compare (name a) (name b))"

definition sortedProducts :: "string \<Rightarrow> product list \<Rightarrow> product list" where
  "sortedProducts sortBy ps = js_sort (product_compare sortBy) ps"

text \<open>The filter callback of lines 136--141; \<open>return product.discount\<close> is read by its truthiness.\<close>

definition product_filter :: "string \<Rightarrow> product \<Rightarrow> bool" where
  "product_filter filterBy p =
     (if filterBy = ''all'' then True
      else if filterBy = ''discounted'' then js_truthy_num (discount p)
      else if filterBy = ''new'' then badge p = Some ''New''
      else True)"

definition filteredProducts :: "string \<Rightarrow> string \<Rightarrow> product list \<Rightarrow> product list" where
  "filteredProducts sortBy filterBy ps = filter (product_filter filterBy) (sortedProducts sortBy ps)"

section \<open>Lemmas\<close>

lemma insort_cmp_key:
  assumes "\<And>a b. cmp a b \<le> 0 \<longleftrightarrow> f a \<le> f b"
  shows "insort_cmp cmp x ys = insort_key f x ys"
  by (induction ys) (simp_all add: assms)

lemma js_sort_key:
  assumes "\<And>a b. cmp a b \<le> 0 \<longleftrightarrow> f a \<le> f b"
  shows "js_sort cmp xs = sort_key f xs"
  by (induction xs) (simp_all add: js_sort_def insort_cmp_key [OF assms])

lemma locale_compare_le: "locale_compare a b \<le> 0 \<longleftrightarrow> a \<le> b"
  by (auto simp: locale_compare_def)

lemma mset_insort_cmp: "mset (insort_cmp cmp x ys) = add_mset x (mset ys)"
  by (induction ys) auto

lemma mset_js_sort: "mset (js_sort cmp xs) = mset xs"
  by (induction xs) (simp_all add: js_sort_def mset_insort_cmp)

lemma product_compare_le:
  "product_compare ''price-low'' a b \<le> 0 \<longleftrightarrow> price a \<le> price b"
  "product_compare ''price-high'' a b \<le> 0 \<longleftrightarrow> - price a \<le> - price b"
  "product_compare ''rating'' a b \<le> 0 \<longleftrightarrow> - rating a \<le> - rating b"
  "product_compare ''name'' a b \<le> 0 \<longleftrightarrow> name a \<le> name b"
  by (simp_all add: product_compare_def locale_compare_le)

lemma set_sortedProducts [simp]: "set (sortedProducts sortBy ps) = set ps"
  by (metis mset_js_sort set_mset_mset sortedProducts_def)

section \<open>Properties\<close>

text \<open>
  C20: each sort option of the Products page lists the catalog as the library's
  stable sort by that option's key (descending orders as ascending by the negated key).
\<close>

theorem sortedProducts_is_sort_key:
  "sortedProducts ''price-low'' ps = sort_key price ps
   \<and> sortedProducts ''price-high'' ps = sort_key (\<lambda>p. - price p) ps
   \<and> sortedProducts ''rating'' ps = sort_key (\<lambda>p. - rating p) ps
   \<and> sortedProducts ''name'' ps = sort_key name ps"
  unfolding sortedProducts_def by (simp add: js_sort_key product_compare_le)

text \<open>
  C21: sorting is a permutation of the catalog, and each option orders it as its
  label says: ascending price, descending price, descending rating, names A to Z.
\<close>

theorem sortedProducts_sorted_perm:
  "mset (sortedProducts sortBy ps) = mset ps
   \<and> sorted (map price (sortedProducts ''price-low'' ps))
   \<and> sorted_wrt (\<ge>) (map price (sortedProducts ''price-high'' ps))
   \<and> sorted_wrt (\<ge>) (map rating (sortedProducts ''rating'' ps))
   \<and> sorted (map name (sortedProducts ''name'' ps))"
proof -
  have k: "js_sort (product_compare ''price-low'') ps = sort_key price ps"
          "js_sort (product_compare ''price-high'') ps = sort_key (\<lambda>p. - price p) ps"
          "js_sort (product_compare ''rating'') ps = sort_key (\<lambda>p. - rating p) ps"
          "js_sort (product_compare ''name'') ps = sort_key name ps"
    by (rule js_sort_key, simp add: product_compare_le)+
  have neg: "sorted (map (\<lambda>p. - f p) xs) \<longleftrightarrow> sorted_wrt (\<ge>) (map f xs)" for f :: "product \<Rightarrow> rat" and xs
    by (simp add: sorted_wrt_map sorted_map)
  have "sorted (map (\<lambda>p. - price p) (sort_key (\<lambda>p. - price p) ps))"
    and "sorted (map (\<lambda>p. - rating p) (sort_key (\<lambda>p. - rating p) ps))"
    by (rule sorted_sort_key)+
  then show ?thesis
    by (simp add: sortedProducts_def mset_js_sort k neg del: sorted_map)
qed

text \<open>C22: the filters keep exactly the products they name, in sorted order; unknown filters keep all.\<close>

theorem filteredProducts_spec:
  "filteredProducts sortBy ''all'' ps = sortedProducts sortBy ps
   \<and> set (filteredProducts sortBy ''discounted'' ps) = {p \<in> set ps. \<exists>d. discount p = Some d \<and> d \<noteq> 0}
   \<and> set (filteredProducts sortBy ''new'' ps) = {p \<in> set ps. badge p = Some ''New''}"
  by (auto simp: filteredProducts_def product_filter_def js_truthy_num_def split: option.splits)

text \<open>C23: the price sort is stable: products of equal price keep their catalog order.\<close>

theorem sortedProducts_price_stable:
  "filter (\<lambda>p. price p = x) (sortedProducts ''price-low'' ps) = filter (\<lambda>p. price p = x) ps"
  unfolding sortedProducts_def by (simp add: js_sort_key product_compare_le sort_key_stable)

text \<open>The listings of the page's mock catalog under the default sort and each filter.\<close>

theorem mock_listing_examples:
  "map name (filteredProducts ''name'' ''all'' products_mockProducts)
     = [''Laptop Backpack'', ''Smart Fitness Watch'', ''Smartphone Stand'', ''USB-C Cable'',
        ''Wireless Bluetooth Headphones'', ''Wireless Mouse'']
   \<and> map pid (filteredProducts ''name'' ''new'' products_mockProducts) = [''2'']
   \<and> map pid (filteredProducts ''price-low'' ''discounted'' products_mockProducts) = [''3'', ''1'']"
  by code_simp

end
