(* ===== verification/Pages.thy ===== *)
theory Pages
  imports Drawer Listing
begin

text \<open>
  The page shells that own a cart: \<open>Store\<close>, \<open>Products\<close> and \<open>ProductDetail\<close>
  (\<open>src/src/pages\<close>). Each page keeps its cart and toasts (\<open>cart_state\<close>),
  \<open>isCartOpen\<close>, the state of its \<open>Header\<close> instance and its own extra state,
  and reacts to UI events: the add buttons of its product cards, the header's
  buttons, the drawer's buttons routed through \<open>drawer_dispatch\<close> to the page's
  handlers, and on the detail page the quantity stepper, the thumbnails and the
  add button. A page is a step function over its events; \<open>reach\<close> (theory
  \<open>Shop_Prelude\<close>) gives its reachable states.
\<close>

section \<open>The shell shared by the pages\<close>

record page_shell = cart_state +
  isCartOpen :: bool
  header_st :: header_state

text \<open>\<open><Header cartItemsCount={...} onCartClick={() => setIsCartOpen(true)} />\<close>.\<close>

definition shell_header_click :: "'a page_shell_scheme \<Rightarrow> header_click \<Rightarrow> 'a page_shell_scheme" where
  "shell_header_click s c =
     (let (h, cart_clicked) = header_handle (header_st s) c
      in if cart_clicked then s\<lparr>header_st := h, isCartOpen := True\<rparr> else s\<lparr>header_st := h\<rparr>)"

text \<open>
  \<open><CartDrawer onClose={() => setIsCartOpen(false)} onUpdateQuantity={upd}
  onRemoveItem={rem} />\<close>: the page's wiring of a drawer callback.
\<close>

definition shell_drawer_call ::
  "(product_id \<Rightarrow> int \<Rightarrow> 'a page_shell_scheme \<Rightarrow> 'a page_shell_scheme)
   \<Rightarrow> (product_id \<Rightarrow> 'a page_shell_scheme \<Rightarrow> 'a page_shell_scheme)
   \<Rightarrow> 'a page_shell_scheme \<Rightarrow> drawer_call \<Rightarrow> 'a page_shell_scheme" where
  "shell_drawer_call upd rem s call =
     (case call of
        OnClose \<Rightarrow> s\<lparr>isCartOpen := False\<rparr>
      | OnUpdateQuantity k q \<Rightarrow> upd k q s
      | OnRemoveItem k \<Rightarrow> rem k s)"

definition shell_drawer_click ::
  "(product_id \<Rightarrow> int \<Rightarrow> 'a page_shell_scheme \<Rightarrow> 'a page_shell_scheme)
   \<Rightarrow> (product_id \<Rightarrow> 'a page_shell_scheme \<Rightarrow> 'a page_shell_scheme)
   \<Rightarrow> 'a page_shell_scheme \<Rightarrow> drawer_click \<Rightarrow> 'a page_shell_scheme" where
  "shell_drawer_click upd rem s d =
     (case drawer_dispatch (isCartOpen s) (cart_items s) d of
        None \<Rightarrow> s
      | Some call \<Rightarrow> shell_drawer_call upd rem s call)"

text \<open>The header's count: \<open>cartItems.reduce((sum, item) => sum + item.quantity, 0)\<close>.\<close>

definition shell_header_count :: "'a page_shell_scheme \<Rightarrow> int" where
  "shell_header_count s = total_items (cart_items s)"

section \<open>Store page (Store.tsx)\<close>

definition store_init :: page_shell where
  "store_init = \<lparr>cart_items = [], toasts = [], isCartOpen = False, header_st = header_init\<rparr>"

text \<open>Card \<open>k\<close> of the grid \<open>mockProducts.map(product => <ProductCard .../>)\<close>.\<close>

datatype store_event = StoreCardAdd nat | StoreHeader header_click | StoreDrawer drawer_click

fun store_step :: "page_shell \<Rightarrow> store_event \<Rightarrow> page_shell" where
  "store_step s (StoreCardAdd k) =
     (if k < length store_mockProducts
      then store_handleAddToCart (card_add_click (store_mockProducts ! k)) s else s)"
| "store_step s (StoreHeader c) = shell_header_click s c"
| "store_step s (StoreDrawer d) =
     shell_drawer_click store_handleUpdateQuantity store_handleRemoveItem s d"

section \<open>Products page (Products.tsx)\<close>

record products_page = page_shell +
  sortBy :: string
  filterBy :: string

definition products_init :: products_page where
  "products_init =
     \<lparr>cart_items = [], toasts = [], isCartOpen = False, header_st = header_init,
      sortBy = ''name'', filterBy = ''all''\<rparr>"

text \<open>\<open>filteredProducts\<close> of the current state: the grid the cards are rendered from.\<close>

definition products_grid :: "products_page \<Rightarrow> product list" where
  "products_grid s = filteredProducts (sortBy s) (filterBy s) products_mockProducts"

datatype products_event =
  ProductsCardAdd nat | SetSortBy string | SetFilterBy string
  | ProductsHeader header_click | ProductsDrawer drawer_click

fun products_step :: "products_page \<Rightarrow> products_event \<Rightarrow> products_page" where
  "products_step s (ProductsCardAdd k) =
     (if k < length (products_grid s)
      then products_handleAddToCart (card_add_click (products_grid s ! k)) s else s)"
| "products_step s (SetSortBy v) = s\<lparr>sortBy := v\<rparr>"
| "products_step s (SetFilterBy v) = s\<lparr>filterBy := v\<rparr>"
| "products_step s (ProductsHeader c) = shell_header_click s c"
| "products_step s (ProductsDrawer d) =
     shell_drawer_click products_handleUpdateQuantity products_handleRemoveItem s d"

section \<open>Product detail page (ProductDetail.tsx)\<close>

record detail_page = page_shell +
  selectedImage :: nat
  detail_quantity :: int

definition detail_init :: detail_page where
  "detail_init =
     \<lparr>cart_items = [], toasts = [], isCartOpen = False, header_st = header_init,
      selectedImage = 0, detail_quantity = 1\<rparr>"

text \<open>
  The events of the page: the stepper's \<open>-\<close> and \<open>+\<close> (lines 233--245), a
  thumbnail (lines 177--191, one per image), Add to Cart (disabled when
  \<open>!product.inStock\<close>), Buy Now (no handler), the header and the drawer.
\<close>

datatype detail_event =
  QtyMinus | QtyPlus | SelectImage nat | AddToCartButton | BuyNow
  | DetailHeader header_click | DetailDrawer drawer_click

text \<open>The page shows \<open>product = mockProduct\<close>; the step takes that product as \<open>dp\<close>.\<close>

fun detail_step :: "detail_product \<Rightarrow> detail_page \<Rightarrow> detail_event \<Rightarrow> detail_page" where
  "detail_step dp s QtyMinus = s\<lparr>detail_quantity := max 1 (detail_quantity s - 1)\<rparr>"
| "detail_step dp s QtyPlus = s\<lparr>detail_quantity := min (stockCount dp) (detail_quantity s + 1)\<rparr>"
| "detail_step dp s (SelectImage i) = (if i < length (images dp) then s\<lparr>selectedImage := i\<rparr> else s)"
| "detail_step dp s AddToCartButton =
     (if inStock dp then detail_handleAddToCart dp (detail_quantity s) s else s)"
| "detail_step dp s BuyNow = s"
| "detail_step dp s (DetailHeader c) = shell_header_click s c"
| "detail_step dp s (DetailDrawer d) =
     shell_drawer_click detail_handleUpdateQuantity detail_handleRemoveItem s d"

section \<open>Specification-level predicates and runs\<close>

text \<open>The detail page's invariant: the cart invariant, the stepper within 1 and the stock, a valid image.\<close>

definition detail_inv :: "detail_product \<Rightarrow> detail_page \<Rightarrow> bool" where
  "detail_inv dp s \<longleftrightarrow> cart_wf (cart_items s) \<and> 1 \<le> detail_quantity s \<and> detail_quantity s \<le> stockCount dp
     \<and> selectedImage s < length (images dp)"

text \<open>Fourteen \<open>+\<close> on the stepper (1 to 15, the stock), then Add to Cart twice.\<close>

definition overstock_events :: "detail_event list" where
  "overstock_events = replicate 14 QtyPlus @ [AddToCartButton, AddToCartButton]"

section \<open>Lemmas\<close>

lemma shell_header_click_cart [simp]:
  "cart_items (shell_header_click s c) = cart_items s"
  "isCartOpen (shell_header_click s c) = (isCartOpen s \<or> c = CartButton)"
  by (auto simp: shell_header_click_def header_handle_def split: header_click.splits)

lemma cart_wf_nth_quantity: "cart_wf c \<Longrightarrow> j < length c \<Longrightarrow> 1 \<le> quantity (c ! j)"
  by (simp add: cart_wf_def)

lemma drawer_update_quantity_pos:
  "cart_wf c \<Longrightarrow> drawer_dispatch b c ev = Some (OnUpdateQuantity k q) \<Longrightarrow> 1 \<le> q"
  by (auto simp: drawer_dispatch_def dest: cart_wf_nth_quantity split: drawer_click.splits if_splits)

lemma shell_drawer_click_inv:
  assumes "cart_wf (cart_items s)"
    and "\<And>k q. 1 \<le> q \<Longrightarrow> cart_wf (cart_items (upd k q s))"
    and "\<And>k. cart_wf (cart_items (rem k s))"
  shows "cart_wf (cart_items (shell_drawer_click upd rem s d))"
  using assms drawer_update_quantity_pos [OF assms(1), of "isCartOpen s" d]
  by (auto simp: shell_drawer_click_def shell_drawer_call_def split: option.splits drawer_call.splits)

lemma store_step_wf: "cart_wf (cart_items s) \<Longrightarrow> cart_wf (cart_items (store_step s e))"
proof (cases e)
  case (StoreCardAdd k)
  assume "cart_wf (cart_items s)"
  with StoreCardAdd show ?thesis
    by (simp add: store_add_cart_items cart_wf_merge_line card_add_click_def)
next
  case (StoreHeader c)
  assume "cart_wf (cart_items s)"
  with StoreHeader show ?thesis by simp
next
  case (StoreDrawer d)
  assume wf: "cart_wf (cart_items s)"
  with StoreDrawer show ?thesis
    by (simp add: shell_drawer_click_inv store_update_cart_items page_cart_items
        cart_wf_set_quantity cart_wf_remove_line)
qed

lemma products_step_wf: "cart_wf (cart_items s) \<Longrightarrow> cart_wf (cart_items (products_step s e))"
proof (cases e)
  case (ProductsCardAdd k)
  assume "cart_wf (cart_items s)"
  with ProductsCardAdd show ?thesis
    by (simp add: page_cart_items cart_wf_merge_line card_add_click_def)
next
  case (ProductsDrawer d)
  assume "cart_wf (cart_items s)"
  with ProductsDrawer show ?thesis
    by (simp add: shell_drawer_click_inv page_cart_items cart_wf_set_quantity cart_wf_remove_line)
qed simp_all

lemma shell_header_click_frame [simp]:
  "detail_quantity (shell_header_click s c) = detail_quantity s"
  "selectedImage (shell_header_click s c) = selectedImage s"
  by (simp_all add: shell_header_click_def header_handle_def split: header_click.splits)

lemma detail_drawer_frame:
  "detail_quantity (shell_drawer_click detail_handleUpdateQuantity detail_handleRemoveItem s d) = detail_quantity s"
  "selectedImage (shell_drawer_click detail_handleUpdateQuantity detail_handleRemoveItem s d) = selectedImage s"
  by (simp_all add: shell_drawer_click_def shell_drawer_call_def detail_handleUpdateQuantity_def
      detail_handleRemoveItem_def split: option.splits drawer_call.splits)

lemma detail_step_inv: "1 \<le> stockCount dp \<Longrightarrow> detail_inv dp s \<Longrightarrow> detail_inv dp (detail_step dp s e)"
proof (cases e)
  case AddToCartButton
  assume "detail_inv dp s"
  with AddToCartButton show ?thesis
    by (simp add: detail_inv_def detail_handleAddToCart_def cart_wf_merge_line)
next
  case (DetailDrawer d)
  assume "detail_inv dp s"
  with DetailDrawer show ?thesis
    by (simp add: detail_inv_def shell_drawer_click_inv page_cart_items cart_wf_set_quantity
        cart_wf_remove_line detail_drawer_frame)
qed (auto simp: detail_inv_def)

text \<open>Every state the detail page reaches satisfies \<open>detail_inv\<close>, for a product with stock and images.\<close>

lemma detail_reach_inv:
  assumes "reach (detail_step dp) detail_init s" and "1 \<le> stockCount dp" and "images dp \<noteq> []"
  shows "detail_inv dp s"
proof (rule reach_invariant [where I = "detail_inv dp"])
  show "reach (detail_step dp) detail_init s" by (rule assms(1))
  show "detail_inv dp detail_init" using assms(2,3) by (simp add: detail_init_def detail_inv_def cart_wf_def)
  show "\<And>s e. detail_inv dp s \<Longrightarrow> detail_inv dp (detail_step dp s e)" by (rule detail_step_inv [OF assms(2)])
qed

lemma length_set_quantity [simp]: "length (set_quantity k n c) = length c"
  by (simp add: set_quantity_def)

lemma nth_set_quantity:
  "j < length c \<Longrightarrow> set_quantity k n c ! j = (if pid (c ! j) = k then (c ! j)\<lparr>quantity := n\<rparr> else c ! j)"
  by (simp add: set_quantity_def)

lemma set_quantity_twice: "set_quantity k a (set_quantity k b c) = set_quantity k a c"
  by (induction c) (simp_all add: set_quantity_def)

lemma set_quantity_same:
  assumes "distinct (map pid c)" and "j < length c"
  shows "set_quantity (pid (c ! j)) (quantity (c ! j)) c = c"
  unfolding set_quantity_def
proof (rule map_idI)
  fix i assume i: "i \<in> set c"
  have "inj_on pid (set c)" using assms(1) by (simp add: distinct_map)
  moreover have "c ! j \<in> set c" using assms(2) by simp
  ultimately have "pid i = pid (c ! j) \<Longrightarrow> i = c ! j"
    using i by (auto dest: inj_onD)
  then show "(if pid i = pid (c ! j) then i\<lparr>quantity := quantity (c ! j)\<rparr> else i) = i"
    by auto
qed

section \<open>Properties\<close>

text \<open>
  C24: in every state the Store page can reach, its cart has one line per product
  id and every quantity is at least 1.
\<close>

theorem store_reachable_wf:
  assumes "reach store_step store_init s"
  shows "cart_wf (cart_items s)"
proof (rule reach_invariant [where I = "\<lambda>s. cart_wf (cart_items s)"])
  show "reach store_step store_init s" by (rule assms)
  show "cart_wf (cart_items store_init)" by (simp add: store_init_def cart_wf_def)
  show "\<And>s e. cart_wf (cart_items s) \<Longrightarrow> cart_wf (cart_items (store_step s e))" by (rule store_step_wf)
qed

theorem store_reachable_wf_witness:
  "reach store_step store_init (run store_step store_init [StoreCardAdd 0, StoreCardAdd 0, StoreHeader CartButton])
   \<and> cart_wf (cart_items (run store_step store_init [StoreCardAdd 0, StoreCardAdd 0, StoreHeader CartButton]))"
  using store_reachable_wf [OF reach_run] by (simp add: reach_run)

text \<open>
  C25: the same holds on the Products page, although its \<open>handleUpdateQuantity\<close>
  stores negative quantities (C9): the drawer never issues a quantity below 1 (C17).
\<close>

theorem products_reachable_wf:
  assumes "reach products_step products_init s"
  shows "cart_wf (cart_items s)"
proof (rule reach_invariant [where I = "\<lambda>s. cart_wf (cart_items s)"])
  show "reach products_step products_init s" by (rule assms)
  show "cart_wf (cart_items products_init)" by (simp add: products_init_def cart_wf_def)
  show "\<And>s e. cart_wf (cart_items s) \<Longrightarrow> cart_wf (cart_items (products_step s e))" by (rule products_step_wf)
qed

theorem products_reachable_wf_witness:
  "reach products_step products_init (run products_step products_init [SetSortBy ''price-low'', ProductsCardAdd 0])
   \<and> cart_wf (cart_items (run products_step products_init [SetSortBy ''price-low'', ProductsCardAdd 0]))"
  using products_reachable_wf [OF reach_run] by (simp add: reach_run)

text \<open>
  C26: on the product detail page (for a product with stock and images) the cart
  invariant holds, the selected quantity stays within 1 and the stock count, and
  the selected image is one of the product's images.
\<close>

theorem detail_reachable_inv:
  assumes "reach (detail_step dp) detail_init s" and "1 \<le> stockCount dp" and "images dp \<noteq> []"
  shows "cart_wf (cart_items s) \<and> 1 \<le> detail_quantity s \<and> detail_quantity s \<le> stockCount dp
     \<and> selectedImage s < length (images dp)"
  using detail_reach_inv [OF assms] by (simp add: detail_inv_def)

theorem detail_reachable_inv_witness:
  "reach (detail_step detail_mockProduct) detail_init (run (detail_step detail_mockProduct) detail_init [QtyPlus, AddToCartButton])
   \<and> 1 \<le> stockCount detail_mockProduct \<and> images detail_mockProduct \<noteq> []
   \<and> cart_wf (cart_items (run (detail_step detail_mockProduct) detail_init [QtyPlus, AddToCartButton]))
   \<and> 1 \<le> detail_quantity (run (detail_step detail_mockProduct) detail_init [QtyPlus, AddToCartButton])
   \<and> detail_quantity (run (detail_step detail_mockProduct) detail_init [QtyPlus, AddToCartButton]) \<le> stockCount detail_mockProduct
   \<and> selectedImage (run (detail_step detail_mockProduct) detail_init [QtyPlus, AddToCartButton]) < length (images detail_mockProduct)"
proof -
  have h: "1 \<le> stockCount detail_mockProduct" "images detail_mockProduct \<noteq> []"
    by (simp_all add: detail_mockProduct_def)
  show ?thesis
    using detail_reachable_inv [OF reach_run h] h by (simp add: reach_run)
qed

text \<open>
  C27: the stock clamp bounds only the stepper, not the cart: choosing 15 (the
  stock) and pressing Add to Cart twice puts 30 units of a product with 15 in
  stock into the cart.
\<close>

theorem detail_cart_exceeds_stock:
  "reach (detail_step detail_mockProduct) detail_init (run (detail_step detail_mockProduct) detail_init overstock_events)
   \<and> cart_abs (cart_items (run (detail_step detail_mockProduct) detail_init overstock_events)) ''1'' = Some 30
   \<and> stockCount detail_mockProduct = 15"
proof -
  have "cart_abs (cart_items (run (detail_step detail_mockProduct) detail_init overstock_events)) ''1'' = Some 30"
    by code_simp
  then show ?thesis by (simp add: reach_run detail_mockProduct_def)
qed

text \<open>
  C28: with the drawer open, \<open>+\<close> then \<open>-\<close> on a line of a well-formed cart
  gives back exactly the Store page's state.
\<close>

theorem store_drawer_plus_minus_roundtrip:
  assumes "cart_wf (cart_items s)" and "isCartOpen s" and "k < length (cart_items s)"
  shows "store_step (store_step s (StoreDrawer (Plus k))) (StoreDrawer (Minus k)) = s"
proof -
  let ?c = "cart_items s"
  let ?i = "?c ! k"
  have q: "1 \<le> quantity ?i" using assms(1,3) by (simp add: cart_wf_def)
  have plus: "store_step s (StoreDrawer (Plus k)) = s\<lparr>cart_items := set_quantity (pid ?i) (quantity ?i + 1) ?c\<rparr>"
    using assms(2,3) q
    by (simp add: shell_drawer_click_def shell_drawer_call_def drawer_dispatch_def store_handleUpdateQuantity_def)
  have at_k: "set_quantity (pid ?i) (quantity ?i + 1) ?c ! k = ?i\<lparr>quantity := quantity ?i + 1\<rparr>"
    using assms(3) by (simp add: nth_set_quantity)
  have restore: "set_quantity (pid ?i) (quantity ?i) ?c = ?c"
    using assms(1,3) by (simp add: cart_wf_def set_quantity_same)
  show ?thesis
    using assms(2,3) q at_k restore
    by (simp add: plus shell_drawer_click_def shell_drawer_call_def drawer_dispatch_def
        store_handleUpdateQuantity_def set_quantity_twice)
qed

theorem store_drawer_plus_minus_roundtrip_witness:
  "cart_wf (cart_items (store_init\<lparr>cart_items := [new_cart_item sample_product 1], isCartOpen := True\<rparr>))
   \<and> isCartOpen (store_init\<lparr>cart_items := [new_cart_item sample_product 1], isCartOpen := True\<rparr>)
   \<and> 0 < length (cart_items (store_init\<lparr>cart_items := [new_cart_item sample_product 1], isCartOpen := True\<rparr>))
   \<and> store_step (store_step (store_init\<lparr>cart_items := [new_cart_item sample_product 1], isCartOpen := True\<rparr>)
        (StoreDrawer (Plus 0))) (StoreDrawer (Minus 0))
     = store_init\<lparr>cart_items := [new_cart_item sample_product 1], isCartOpen := True\<rparr>"
proof -
  have h: "cart_wf (cart_items (store_init\<lparr>cart_items := [new_cart_item sample_product 1], isCartOpen := True\<rparr>))"
    by (simp add: cart_wf_def)
  show ?thesis
    using store_drawer_plus_minus_roundtrip [OF h] h by simp
qed

end
