(* ===== verification/Static_Pages.thy ===== *)
theory Static_Pages
  imports Pages
begin

text \<open>
  The pages without a cart of their own: \<open>pages/Contact.tsx\<close>, \<open>pages/About.tsx\<close>
  and \<open>pages/Categories.tsx\<close>. Each keeps \<open>const [cartItems] = useState([])\<close>
  and \<open>isCartOpen\<close>, passes \<open>cartItemsCount={0}\<close> to the header and no-op
  callbacks to the drawer, so the drawer can only be opened and closed. The
  Contact page also keeps a form: \<open>handleInputChange\<close> stores an input's value
  under the input's \<open>name\<close> attribute, and \<open>handleSubmit\<close> raises a toast and
  clears the form. The browser runs \<open>onSubmit\<close> only when the form's
  constraints hold: every input is \<open>required\<close> (non-empty) and the e-mail input
  has \<open>type="email"\<close>. The e-mail check is simplified to one \<open>@\<close> with text
  on both sides (the HTML grammar also restricts the characters).
\<close>

section \<open>Contact form\<close>

text \<open>\<open>formData\<close>: an object keyed by the inputs' \<open>name\<close> attributes.\<close>

type_synonym form_data = "string \<rightharpoonup> string"

definition empty_form :: form_data where
  "empty_form = [''name'' \<mapsto> [], ''email'' \<mapsto> [], ''subject'' \<mapsto> [], ''message'' \<mapsto> []]"

text \<open>The four inputs of the form (lines 130--183) and their \<open>name\<close> attributes.\<close>

datatype contact_input = NameInput | EmailInput | SubjectInput | MessageInput

definition input_name :: "contact_input \<Rightarrow> string" where
  "input_name i = (case i of NameInput \<Rightarrow> ''name'' | EmailInput \<Rightarrow> ''email''
                    | SubjectInput \<Rightarrow> ''subject'' | MessageInput \<Rightarrow> ''message'')"

text \<open>\<open>setFormData(prev => ({ ...prev, [e.target.name]: e.target.value }))\<close>.\<close>

definition handleInputChange :: "form_data \<Rightarrow> string \<Rightarrow> string \<Rightarrow> form_data" where
  "handleInputChange f k v = f(k \<mapsto> v)"

definition contact_sent_toast :: toast where
  "contact_sent_toast =
     \<lparr>toast_title = ''Message sent!'', toast_description = ''We'll get back to you within 24 hours.''\<rparr>"

record contact_page = page_shell +
  formData :: form_data

text \<open>\<open>handleSubmit\<close>: \<open>e.preventDefault()\<close>, the toast, then the cleared form.\<close>

definition handleSubmit :: "contact_page \<Rightarrow> contact_page" where
  "handleSubmit s = s\<lparr>toasts := toasts s @ [contact_sent_toast], formData := empty_form\<rparr>"

definition valid_email :: "string \<Rightarrow> bool" where
  "valid_email v =
     (let local = takeWhile (\<lambda>c. c \<noteq> CHR ''@'') v; rest = dropWhile (\<lambda>c. c \<noteq> CHR ''@'') v
      in local \<noteq> [] \<and> rest \<noteq> [] \<and> tl rest \<noteq> [] \<and> CHR ''@'' \<notin> set (tl rest))"

text \<open>The browser's constraint validation of the form before \<open>onSubmit\<close>.\<close>

definition form_valid :: "form_data \<Rightarrow> bool" where
  "form_valid f =
     (list_all (\<lambda>i. case f (input_name i) of None \<Rightarrow> False | Some v \<Rightarrow> v \<noteq> [])
        [NameInput, EmailInput, SubjectInput, MessageInput]
      \<and> (case f ''email'' of None \<Rightarrow> False | Some v \<Rightarrow> valid_email v))"

definition contact_init :: contact_page where
  "contact_init =
     \<lparr>cart_items = [], toasts = [], isCartOpen = False, header_st = header_init,
      formData = empty_form\<rparr>"

datatype contact_event =
  InputChange contact_input string | SubmitForm
  | ContactHeader header_click | ContactDrawer drawer_click

text \<open>The drawer's \<open>onUpdateQuantity={() => {}}\<close> and \<open>onRemoveItem={() => {}}\<close>.\<close>

definition noop_update :: "product_id \<Rightarrow> int \<Rightarrow> 'a page_shell_scheme \<Rightarrow> 'a page_shell_scheme" where
  "noop_update k q s = s"

definition noop_remove :: "product_id \<Rightarrow> 'a page_shell_scheme \<Rightarrow> 'a page_shell_scheme" where
  "noop_remove k s = s"

fun contact_step :: "contact_page \<Rightarrow> contact_event \<Rightarrow> contact_page" where
  "contact_step s (InputChange i v) = s\<lparr>formData := handleInputChange (formData s) (input_name i) v\<rparr>"
| "contact_step s SubmitForm = (if form_valid (formData s) then handleSubmit s else s)"
| "contact_step s (ContactHeader c) = shell_header_click s c"
| "contact_step s (ContactDrawer d) = shell_drawer_click noop_update noop_remove s d"

text \<open>\<open><Header cartItemsCount={0} .../>\<close> on the pages without a cart.\<close>

definition static_header_count :: int where
  "static_header_count = 0"

section \<open>About and Categories\<close>

text \<open>
  Both pages have the header and the drawer only (their other buttons have no
  handlers): the shell with no-op drawer callbacks.
\<close>

datatype static_event = StaticHeader header_click | StaticDrawer drawer_click

fun static_step :: "page_shell \<Rightarrow> static_event \<Rightarrow> page_shell" where
  "static_step s (StaticHeader c) = shell_header_click s c"
| "static_step s (StaticDrawer d) = shell_drawer_click noop_update noop_remove s d"

text \<open>\<open>interface Category\<close> and \<open>categories\<close> of Categories.tsx (lines 7--61).\<close>

record category =
  cat_id :: string
  cat_name :: string
  cat_description :: string
  cat_image :: string
  productCount :: int
  trending :: "bool option"

definition categories_data :: "category list" where
  "categories_data =
    [\<lparr>cat_id = ''1'', cat_name = ''Electronics'', cat_description = ''Latest gadgets and electronic devices'',
      cat_image = ''https://images.unsplash.com/photo-1498049794561-7780e7231661?w=400&h=300&fit=crop'',
      productCount = 156, trending = Some True\<rparr>,
     \<lparr>cat_id = ''2'', cat_name = ''Clothing & Fashion'', cat_description = ''Trendy apparel and accessories'',
      cat_image = ''https://images.unsplash.com/photo-1441986300917-64674bd600d8?w=400&h=300&fit=crop'',
      productCount = 234, trending = None\<rparr>,
     \<lparr>cat_id = ''3'', cat_name = ''Home & Garden'', cat_description = ''Everything for your home and outdoor space'',
      cat_image = ''https://images.unsplash.com/photo-1586023492125-27b2c045efd7?w=400&h=300&fit=crop'',
      productCount = 189, trending = Some True\<rparr>,
     \<lparr>cat_id = ''4'', cat_name = ''Sports & Outdoors'', cat_description = ''Gear for active lifestyle and adventures'',
      cat_image = ''https://images.unsplash.com/photo-1571019613454-1cb2f99b2d8b?w=400&h=300&fit=crop'',
      productCount = 98, trending = None\<rparr>,
     \<lparr>cat_id = ''5'', cat_name = ''Books & Media'', cat_description = ''Books, movies, music and educational content'',
      cat_image = ''https://images.unsplash.com/photo-1481627834876-b7833e8f5570?w=400&h=300&fit=crop'',
      productCount = 67, trending = None\<rparr>,
     \<lparr>cat_id = ''6'', cat_name = ''Beauty & Health'', cat_description = ''Personal care and wellness products'',
      cat_image = ''https://images.unsplash.com/photo-1556228453-efd6c1ff04f6?w=400&h=300&fit=crop'',
      productCount = 145, trending = None\<rparr>]"

text \<open>\<open>{category.trending && <Badge>Trending</Badge>}\<close> (line 86).\<close>

definition trending_badges :: "category list \<Rightarrow> string list" where
  "trending_badges cs = map cat_name (filter (\<lambda>c. trending c = Some True) cs)"

section \<open>Specification-level predicates and fixtures\<close>

text \<open>The names of the form's inputs.\<close>

definition form_keys :: "string set" where
  "form_keys = {''name'', ''email'', ''subject'', ''message''}"

text \<open>A form filled in with valid values.\<close>

definition filled_contact :: contact_page where
  "filled_contact = contact_init\<lparr>formData := [''name'' \<mapsto> ''Ann'', ''email'' \<mapsto> ''ann@example.com'', ''subject'' \<mapsto> ''Order'', ''message'' \<mapsto> ''Hello'']\<rparr>"

text \<open>The same form with its subject cleared.\<close>

definition blank_subject_contact :: contact_page where
  "blank_subject_contact = filled_contact\<lparr>formData := (formData filled_contact)(''subject'' \<mapsto> [])\<rparr>"

section \<open>Lemmas\<close>

lemma input_name_in_keys [simp]: "input_name i \<in> form_keys"
  by (cases i) (simp_all add: input_name_def form_keys_def)

lemma noop_drawer_click [simp]:
  "cart_items (shell_drawer_click noop_update noop_remove s d) = cart_items s"
  "toasts (shell_drawer_click noop_update noop_remove s d) = toasts s"
  by (simp_all add: shell_drawer_click_def shell_drawer_call_def noop_update_def noop_remove_def
      split: option.splits drawer_call.splits)

lemma noop_drawer_click_form [simp]:
  "formData (shell_drawer_click noop_update noop_remove s d) = formData s"
  by (simp add: shell_drawer_click_def shell_drawer_call_def noop_update_def noop_remove_def
      split: option.splits drawer_call.splits)

lemma shell_header_click_form [simp]:
  "formData (shell_header_click s c) = formData s"
  by (simp add: shell_header_click_def header_handle_def split: header_click.splits)

lemma shell_header_click_toasts [simp]:
  "toasts (shell_header_click s c) = toasts s"
  by (simp add: shell_header_click_def header_handle_def split: header_click.splits)

lemma dom_empty_form: "dom empty_form = form_keys"
  by (auto simp: empty_form_def form_keys_def)

section \<open>Properties\<close>

text \<open>
  C30: typing into an input stores the value under that input's name and leaves
  the other fields as they were.
\<close>

theorem contact_input_roundtrip:
  "formData (contact_step s (InputChange i v)) (input_name i) = Some v
   \<and> (\<forall>k. k \<noteq> input_name i \<longrightarrow> formData (contact_step s (InputChange i v)) k = formData s k)"
  by (simp add: handleInputChange_def)

theorem contact_input_roundtrip_witness:
  "formData (contact_step contact_init (InputChange NameInput ''Ann'')) ''name'' = Some ''Ann''
   \<and> ''email'' \<noteq> input_name NameInput
   \<and> formData (contact_step contact_init (InputChange NameInput ''Ann'')) ''email'' = formData contact_init ''email''"
  using contact_input_roundtrip [of contact_init NameInput "''Ann''"] by (simp add: input_name_def)

text \<open>C31: a submit that passes validation clears the form and raises one toast.\<close>

theorem contact_submit_valid_resets:
  assumes "form_valid (formData s)"
  shows "formData (contact_step s SubmitForm) = empty_form
       \<and> toasts (contact_step s SubmitForm) = toasts s @ [contact_sent_toast]
       \<and> cart_items (contact_step s SubmitForm) = cart_items s"
  using assms by (simp add: handleSubmit_def)

theorem contact_submit_valid_resets_witness:
  "form_valid (formData filled_contact)
   \<and> formData (contact_step filled_contact SubmitForm) = empty_form
   \<and> toasts (contact_step filled_contact SubmitForm) = [contact_sent_toast]
   \<and> cart_items (contact_step filled_contact SubmitForm) = []"
proof -
  have v: "form_valid (formData filled_contact)"
    by (simp add: filled_contact_def contact_init_def) code_simp
  show ?thesis
    using contact_submit_valid_resets [OF v] v by (simp add: filled_contact_def contact_init_def)
qed

text \<open>
  C32: each \<open>required\<close> input gates the submit on its own, and so does the
  e-mail input's type: while any one of the four fields is empty, or the
  e-mail is malformed, submitting changes nothing (no toast, no reset).
\<close>

theorem contact_submit_blocked:
  assumes "formData s (input_name i) = Some [] \<or> (formData s ''email'' = Some v \<and> \<not> valid_email v)"
  shows "contact_step s SubmitForm = s"
proof -
  have "\<not> form_valid (formData s)"
    using assms by (cases i) (auto simp: form_valid_def input_name_def)
  then show ?thesis by simp
qed

theorem contact_submit_blocked_witness:
  "(formData blank_subject_contact (input_name SubjectInput) = Some []
    \<or> (formData blank_subject_contact ''email'' = Some ''ann@example.com'' \<and> \<not> valid_email ''ann@example.com''))
   \<and> contact_step blank_subject_contact SubmitForm = blank_subject_contact"
proof -
  have h: "formData blank_subject_contact (input_name SubjectInput) = Some []
    \<or> (formData blank_subject_contact ''email'' = Some ''ann@example.com'' \<and> \<not> valid_email ''ann@example.com'')"
    by (simp add: blank_subject_contact_def input_name_def)
  show ?thesis
    using contact_submit_blocked [OF h] h by blast
qed

text \<open>
  C33: on the Contact page the cart stays empty and the form always has exactly
  its four fields.
\<close>

theorem contact_reachable_inv:
  assumes "reach contact_step contact_init s"
  shows "cart_items s = [] \<and> dom (formData s) = form_keys"
proof (rule reach_invariant [where I = "\<lambda>s. cart_items s = [] \<and> dom (formData s) = form_keys", OF assms])
  show "cart_items contact_init = [] \<and> dom (formData contact_init) = form_keys"
    by (simp add: contact_init_def dom_empty_form)
next
  fix s :: contact_page and e
  assume "cart_items s = [] \<and> dom (formData s) = form_keys"
  then show "cart_items (contact_step s e) = [] \<and> dom (formData (contact_step s e)) = form_keys"
  proof (cases e)
    case (InputChange i v)
    with \<open>cart_items s = [] \<and> dom (formData s) = form_keys\<close> show ?thesis
      by (simp add: handleInputChange_def insert_absorb)
  next
    case SubmitForm
    with \<open>cart_items s = [] \<and> dom (formData s) = form_keys\<close> show ?thesis
      by (simp add: handleSubmit_def dom_empty_form)
  qed simp_all
qed

theorem contact_reachable_inv_witness:
  "reach contact_step contact_init (run contact_step contact_init [InputChange NameInput ''Ann'', SubmitForm])
   \<and> cart_items (run contact_step contact_init [InputChange NameInput ''Ann'', SubmitForm]) = []
   \<and> dom (formData (run contact_step contact_init [InputChange NameInput ''Ann'', SubmitForm])) = form_keys"
  using contact_reachable_inv [OF reach_run] by (simp add: reach_run)

text \<open>
  C34: on the About and Categories pages the cart stays empty, no toast is raised,
  and the open drawer shows the empty state with count 0 and no total.
\<close>

theorem static_pages_cart_empty:
  assumes "reach static_step store_init s"
  shows "cart_items s = [] \<and> toasts s = []
       \<and> (isCartOpen s \<longrightarrow> cart_drawer_view (isCartOpen s) (cart_items s)
                              = Some \<lparr>dv_badge = 0, dv_lines = [], dv_total = None\<rparr>)"
proof -
  have "cart_items s = [] \<and> toasts s = []"
  proof (rule reach_invariant [where I = "\<lambda>s. cart_items s = [] \<and> toasts s = []", OF assms])
    show "cart_items store_init = [] \<and> toasts store_init = []" by (simp add: store_init_def)
  next
    fix s :: page_shell and e
    assume "cart_items s = [] \<and> toasts s = []"
    then show "cart_items (static_step s e) = [] \<and> toasts (static_step s e) = []"
      by (cases e) simp_all
  qed
  then show ?thesis
    by (simp add: cart_drawer_view_def total_items_def)
qed

theorem static_pages_cart_empty_witness:
  "reach static_step store_init (run static_step store_init [StaticHeader CartButton, StaticDrawer (Plus 0)])
   \<and> cart_items (run static_step store_init [StaticHeader CartButton, StaticDrawer (Plus 0)]) = []
   \<and> toasts (run static_step store_init [StaticHeader CartButton, StaticDrawer (Plus 0)]) = []
   \<and> isCartOpen (run static_step store_init [StaticHeader CartButton, StaticDrawer (Plus 0)])
   \<and> cart_drawer_view (isCartOpen (run static_step store_init [StaticHeader CartButton, StaticDrawer (Plus 0)])) (cart_items (run static_step store_init [StaticHeader CartButton, StaticDrawer (Plus 0)]))
       = Some \<lparr>dv_badge = 0, dv_lines = [], dv_total = None\<rparr>"
proof -
  have r: "reach static_step store_init (run static_step store_init [StaticHeader CartButton, StaticDrawer (Plus 0)])"
    by (rule reach_run)
  have o: "isCartOpen (run static_step store_init [StaticHeader CartButton, StaticDrawer (Plus 0)])"
    by code_simp
  from static_pages_cart_empty [OF r] o r show ?thesis
    by blast
qed

end
