(* ===== verification/Js_Number.thy ===== *)
theory Js_Number
  imports Shop_Prelude
begin

text \<open>
  \<open>Number.prototype.toFixed(f)\<close> (ECMAScript 2024, 21.1.3.3), which every
  component uses to print prices: \<open>${price.toFixed(2)}\<close>. The number is an
  exact rational here (the code's doubles are not modelled, see the root
  theory). The steps of the standard: a RangeError for \<open>f > 100\<close>; a minus sign
  and the absolute value for a negative number; for \<open>x \<ge> 10^21\<close> the exponential
  form of \<open>Number::toString\<close> (not modelled: \<open>None\<close>, with the RangeError);
  otherwise the integer \<open>n\<close> nearest to \<open>x * 10^f\<close>, the larger on a tie, printed
  with at least \<open>f + 1\<close> digits and a point before the last \<open>f\<close>.
  The lemmas show that \<open>fixed_n\<close> is the \<open>n\<close> the standard asks for, and that
  reading the printed string back (\<open>parse_fixed\<close>) gives \<open>x\<close> rounded to \<open>f\<close>
  decimals, within half a unit of the last digit.
\<close>

section \<open>toFixed\<close>

text \<open>Steps 11.b--c: the digits of \<open>n\<close>, zero-padded to \<open>f + 1\<close> digits, with the point.\<close>

definition fixed_digits :: "nat \<Rightarrow> int \<Rightarrow> string" where
  "fixed_digits f n =
     (let m = show_digits n; k = length m;
          m' = (if k \<le> f then replicate (f + 1 - k) CHR ''0'' @ m else m);
          k' = length m'
      in if f = 0 then m else take (k' - f) m' @ CHR ''.'' # drop (k' - f) m')"

text \<open>Step 11.a: \<open>n\<close> with \<open>n / 10^f - x\<close> closest to zero, the larger \<open>n\<close> on a tie.\<close>

definition fixed_n :: "nat \<Rightarrow> rat \<Rightarrow> int" where
  "fixed_n f x = \<lfloor>\<bar>x\<bar> * 10 ^ f + 1 / 2\<rfloor>"

text \<open>
  The whole method; \<open>None\<close> for a RangeError (\<open>f > 100\<close>) and for the exponential
  form (\<open>|x| \<ge> 10^21\<close>).
\<close>

definition to_fixed :: "nat \<Rightarrow> rat \<Rightarrow> string option" where
  "to_fixed f x =
     (if 100 < f \<or> 10 ^ 21 \<le> \<bar>x\<bar> then None
      else Some ((if x < 0 then ''-'' else []) @ fixed_digits f (fixed_n f x)))"

section \<open>Reading a fixed-point string back\<close>

text \<open>
  The inverse used to state what the printed string means: an optional minus,
  digits, and (for \<open>f > 0\<close>) a point followed by exactly \<open>f\<close> digits.
\<close>

definition digit_of :: "char \<Rightarrow> nat option" where
  "digit_of c = (let k = of_char c in if 48 \<le> k \<and> k \<le> 57 then Some (k - 48) else None)"

fun digits_value :: "nat \<Rightarrow> string \<Rightarrow> nat option" where
  "digits_value acc [] = Some acc"
| "digits_value acc (c # cs) = (case digit_of c of None \<Rightarrow> None | Some d \<Rightarrow> digits_value (10 * acc + d) cs)"

definition parse_fixed :: "nat \<Rightarrow> string \<Rightarrow> rat option" where
  "parse_fixed f s =
     (let neg = (take 1 s = ''-''); t = (if neg then drop 1 s else s); k = length t;
          sign = (if neg then -1 else 1) :: rat
      in if f = 0 then (if t = [] then None else map_option (\<lambda>n. sign * of_nat n) (digits_value 0 t))
         else if k < f + 2 \<or> t ! (k - f - 1) \<noteq> CHR ''.'' then None
         else map_option (\<lambda>n. sign * of_nat n / 10 ^ f) (digits_value 0 (take (k - f - 1) t @ drop (k - f) t)))"

text \<open>\<open>x\<close> rounded to \<open>f\<close> decimals as \<open>toFixed\<close> rounds it (half away from zero).\<close>

definition fixed_round :: "nat \<Rightarrow> rat \<Rightarrow> rat" where
  "fixed_round f x = (if x < 0 then -1 else 1) * of_int (fixed_n f x) / 10 ^ f"

section \<open>Lemmas\<close>

lemma digits_value_append:
  "digits_value acc (xs @ ys) = (case digits_value acc xs of None \<Rightarrow> None | Some a \<Rightarrow> digits_value a ys)"
  by (induction acc xs rule: digits_value.induct) (simp_all split: option.splits)

lemma digit_of_char [simp]: "d < 10 \<Longrightarrow> digit_of (char_of (48 + d)) = Some d"
  by (simp add: digit_of_def of_char_of)

lemma digits_value_show_digits:
  "0 \<le> i \<Longrightarrow> digits_value acc (show_digits i) = Some (acc * 10 ^ length (show_digits i) + nat i)"
proof (induction i arbitrary: acc rule: show_digits.induct)
  case (1 i)
  show ?case
  proof (cases "i < 10")
    case True
    with "1.prems" show ?thesis by (subst (1 2) show_digits.simps) simp
  next
    case False
    then have eq: "show_digits i = show_digits (i div 10) @ [char_of (48 + nat (i mod 10))]"
      by (subst show_digits.simps) simp
    have d: "nat (i mod 10) < 10" by simp
    have "0 \<le> i div 10"
      using "1.prems" by simp
    then have "int (10 * nat (i div 10) + nat (i mod 10)) = i"
      by simp
    then have "nat i = 10 * nat (i div 10) + nat (i mod 10)"
      by (metis nat_int)
    with False "1.IH" [of "acc"] "1.prems" d show ?thesis
      by (simp add: eq digits_value_append algebra_simps)
  qed
qed

lemma show_digits_not_Nil [simp]: "show_digits i \<noteq> []"
  by (subst show_digits.simps) simp

lemma digits_value_zeros: "digits_value acc (replicate k CHR ''0'') = Some (acc * 10 ^ k)"
  by (induction k arbitrary: acc) (simp_all add: digit_of_def)

lemma digit_of_minus [simp]: "digit_of CHR ''-'' = None"
  by (simp add: digit_of_def)

lemma fixed_n_nonneg [simp]: "0 \<le> fixed_n f x"
  unfolding fixed_n_def by (simp add: add_nonneg_nonneg)

text \<open>The digit string of \<open>toFixed\<close>: digits before and after the point, the value \<open>n\<close>.\<close>

lemma fixed_digits_split:
  assumes "0 < f" and "0 \<le> n"
  obtains a b where "fixed_digits f n = a @ CHR ''.'' # b" and "length b = f" and "a \<noteq> []"
    and "digits_value 0 (a @ b) = Some (nat n)"
proof -
  define m where "m = show_digits n"
  define m' where "m' = (if length m \<le> f then replicate (f + 1 - length m) CHR ''0'' @ m else m)"
  have len: "f + 1 \<le> length m'"
    by (simp add: m'_def)
  have val: "digits_value 0 m' = Some (nat n)"
    using assms(2) by (simp add: m'_def m_def digits_value_append digits_value_zeros digits_value_show_digits)
  have eq: "fixed_digits f n = take (length m' - f) m' @ CHR ''.'' # drop (length m' - f) m'"
    using assms(1) by (simp add: fixed_digits_def Let_def m_def m'_def)
  show ?thesis
  proof (rule that [OF eq])
    show "length (drop (length m' - f) m') = f"
      using len by simp
    show "take (length m' - f) m' \<noteq> []"
      using len by (cases m') auto
    show "digits_value 0 (take (length m' - f) m' @ drop (length m' - f) m') = Some (nat n)"
      by (simp add: val)
  qed
qed

lemma fixed_digits_not_minus:
  assumes "0 \<le> n"
  shows "take 1 (fixed_digits f n) \<noteq> ''-''"
proof (cases "f = 0")
  case True
  have "digits_value 0 (show_digits n) \<noteq> None"
    using assms by (simp add: digits_value_show_digits)
  then show ?thesis using True
    by (cases "show_digits n") (auto simp: fixed_digits_def split: option.splits)
next
  case False
  then have "0 < f" by simp
  then obtain a b where eq: "fixed_digits f n = a @ CHR ''.'' # b" and "length b = f" and "a \<noteq> []"
    and v: "digits_value 0 (a @ b) = Some (nat n)"
    using assms by (rule fixed_digits_split)
  then obtain c cs where a: "a = c # cs" by (cases a) auto
  from v a have "digit_of c \<noteq> None" by (auto split: option.splits)
  with eq a show ?thesis by auto
qed

lemma parse_fixed_digits:
  assumes "0 \<le> n"
  shows "parse_fixed f (fixed_digits f n) = Some (of_int n / 10 ^ f)"
    and "parse_fixed f (CHR ''-'' # fixed_digits f n) = Some (- (of_int n / 10 ^ f))"
proof -
  have nm: "take 1 (fixed_digits f n) \<noteq> ''-''" using assms by (rule fixed_digits_not_minus)
  have n: "(of_nat (nat n) :: rat) = of_int n" using assms by simp
  have "parse_fixed f (fixed_digits f n) = Some (of_int n / 10 ^ f)
        \<and> parse_fixed f (CHR ''-'' # fixed_digits f n) = Some (- (of_int n / 10 ^ f))"
  proof (cases "f = 0")
    case True
    then show ?thesis using nm assms n
      by (simp add: parse_fixed_def fixed_digits_def digits_value_show_digits)
  next
    case False
    then have "0 < f" by simp
    then obtain a b where eq: "fixed_digits f n = a @ CHR ''.'' # b" and lb: "length b = f"
      and ne: "a \<noteq> []" and v: "digits_value 0 (a @ b) = Some (nat n)"
      using assms by (rule fixed_digits_split)
    have i: "(a @ CHR ''.'' # b) ! (length (a @ CHR ''.'' # b) - f - 1) = CHR ''.''"
      and t: "take (length (a @ CHR ''.'' # b) - f - 1) (a @ CHR ''.'' # b) = a"
      and d: "drop (length (a @ CHR ''.'' # b) - f) (a @ CHR ''.'' # b) = b"
      using lb by (simp_all add: nth_append)
    have k: "\<not> length (a @ CHR ''.'' # b) < f + 2"
      using lb ne by (cases a) simp_all
    show ?thesis using False nm eq i t d k v n
      by (simp add: parse_fixed_def Let_def)
  qed
  then show "parse_fixed f (fixed_digits f n) = Some (of_int n / 10 ^ f)"
    and "parse_fixed f (CHR ''-'' # fixed_digits f n) = Some (- (of_int n / 10 ^ f))"
    by simp_all
qed

lemma fixed_n_close: "\<bar>of_int (fixed_n f x) - \<bar>x\<bar> * 10 ^ f\<bar> \<le> (1 / 2 :: rat)"
proof -
  have "of_int \<lfloor>\<bar>x\<bar> * 10 ^ f + 1 / 2\<rfloor> \<le> \<bar>x\<bar> * 10 ^ f + (1 / 2 :: rat)"
    and "\<bar>x\<bar> * 10 ^ f + 1 / 2 < of_int \<lfloor>\<bar>x\<bar> * 10 ^ f + 1 / 2\<rfloor> + (1 :: rat)"
    using floor_correct [of "\<bar>x\<bar> * 10 ^ f + 1 / 2"] by simp_all
  then show ?thesis
    unfolding fixed_n_def by linarith
qed

lemma floor_half_nearest:
  fixes y :: rat and m :: int
  shows "\<bar>of_int \<lfloor>y + 1 / 2\<rfloor> - y\<bar> \<le> \<bar>of_int m - y\<bar>
         \<and> (\<bar>of_int m - y\<bar> = \<bar>of_int \<lfloor>y + 1 / 2\<rfloor> - y\<bar> \<longrightarrow> m \<le> \<lfloor>y + 1 / 2\<rfloor>)"
proof -
  define n where "n = \<lfloor>y + 1 / 2\<rfloor>"
  have lo: "of_int n \<le> y + 1 / 2" and hi: "y + 1 / 2 < of_int n + 1"
    using floor_correct [of "y + 1 / 2"] by (simp_all add: n_def)
  consider "m \<le> n - 1" | "m = n" | "n + 1 \<le> m" by linarith
  then have "\<bar>of_int n - y\<bar> \<le> \<bar>of_int m - y\<bar> \<and> (\<bar>of_int m - y\<bar> = \<bar>of_int n - y\<bar> \<longrightarrow> m \<le> n)"
  proof cases
    case 1
    then have "of_int m \<le> (of_int n - 1 :: rat)"
      by (metis of_int_1 of_int_diff of_int_le_iff)
    with lo hi show ?thesis using 1 by linarith
  next
    case 3
    then have "(of_int n + 1 :: rat) \<le> of_int m"
      by (metis of_int_1 of_int_add of_int_le_iff)
    with lo hi show ?thesis by linarith
  qed simp
  then show ?thesis by (simp add: n_def)
qed

lemma scaled_dist:
  "\<bar>of_int k / 10 ^ f - \<bar>x\<bar>\<bar> = \<bar>of_int k - \<bar>x\<bar> * 10 ^ f\<bar> / (10 ^ f :: rat)"
proof -
  have p: "(0::rat) < 10 ^ f" by simp
  have "of_int k / 10 ^ f - \<bar>x\<bar> = (of_int k - \<bar>x\<bar> * 10 ^ f) / 10 ^ f"
    using p by (simp add: diff_divide_distrib)
  then show ?thesis
    using p by (simp add: abs_divide)
qed

lemma fixed_round_close: "\<bar>fixed_round f x - x\<bar> \<le> 1 / (2 * 10 ^ f)"
proof -
  define n where "n = (of_int (fixed_n f x) :: rat)"
  have "\<bar>n / 10 ^ f - \<bar>x\<bar>\<bar> = \<bar>n - \<bar>x\<bar> * 10 ^ f\<bar> / 10 ^ f"
    unfolding n_def by (rule scaled_dist)
  also have "\<dots> \<le> (1 / 2) / 10 ^ f"
    using fixed_n_close [of f x] unfolding n_def by (rule divide_right_mono) simp
  finally have c: "\<bar>n / 10 ^ f - \<bar>x\<bar>\<bar> \<le> 1 / (2 * 10 ^ f)" by simp
  show ?thesis
  proof (cases "x < 0")
    case True
    then have "fixed_round f x - x = - (n / 10 ^ f - \<bar>x\<bar>)"
      by (simp add: fixed_round_def n_def)
    with c show ?thesis by (simp only: abs_minus_cancel)
  next
    case False
    then have "fixed_round f x - x = n / 10 ^ f - \<bar>x\<bar>"
      by (simp add: fixed_round_def n_def)
    with c show ?thesis by simp
  qed
qed

section \<open>The method's contract\<close>

text \<open>
  \<open>toFixed\<close> returns a string for every \<open>f \<le> 100\<close> and \<open>|x| < 10^21\<close>; read
  back, it is \<open>x\<close> rounded to \<open>f\<close> decimals, at most half a unit of the last
  printed digit away from \<open>x\<close>.
\<close>

lemma to_fixed_roundtrip:
  assumes "f \<le> 100" and "\<bar>x\<bar> < 10 ^ 21"
  shows "\<exists>s. to_fixed f x = Some s \<and> parse_fixed f s = Some (fixed_round f x)
             \<and> \<bar>fixed_round f x - x\<bar> \<le> 1 / (2 * 10 ^ f)"
  using assms fixed_round_close [of f x]
  by (auto simp: to_fixed_def fixed_round_def parse_fixed_digits)

text \<open>
  The integer \<open>fixed_n\<close> is the one step 11.a of the standard chooses: no
  integer is nearer to \<open>|x| * 10^f\<close>, and on a tie it is the larger one.
\<close>

lemma fixed_n_nearest:
  "\<bar>of_int (fixed_n f x) / 10 ^ f - \<bar>x\<bar>\<bar> \<le> \<bar>of_int m / 10 ^ f - \<bar>x\<bar>\<bar>
   \<and> (\<bar>of_int m / 10 ^ f - \<bar>x\<bar>\<bar> = \<bar>of_int (fixed_n f x) / 10 ^ f - \<bar>x\<bar>\<bar> \<longrightarrow> m \<le> fixed_n f x)"
  using floor_half_nearest [of "\<bar>x\<bar> * 10 ^ f" m]
  by (simp add: scaled_dist fixed_n_def divide_right_mono)

end
