(* ===== verification/Display.thy ===== *)
theory Display
  imports Static_Pages Js_Number
begin

text \<open>
  What the pages display as text. The components compute their labels with
  \<open>toFixed(2)\<close> (\<open>Js_Number.to_fixed\<close>) inside \<open>$\<close>-prefixed JSX text, and
  choose which parts to show with \<open>{cond && ...}\<close> and ternaries. Each view
  here is the data a component renders from its props and state, component by
  component: the product card's prices, the drawer's line and footer labels, the
  header, the hero banner, the product detail page with its tabs, and the
  content of the About, Categories and Contact pages. Markup and styling are left out.
\<close>

section \<open>JavaScript values in JSX text\<close>

text \<open>\<open>${x.toFixed(2)}\<close> after a literal \<open>$\<close>: the price label of every component.\<close>

definition dollar :: "money \<Rightarrow> string option" where
  "dollar x = map_option (\<lambda>s. ''$'' @ s) (to_fixed 2 x)"

text \<open>\<open>xs[i]\<close>: \<open>undefined\<close> (here \<open>None\<close>) outside the array.\<close>

definition js_index :: "'a list \<Rightarrow> nat \<Rightarrow> 'a option" where
  "js_index xs i = (if i < length xs then Some (xs ! i) else None)"

section \<open>ProductCard prices (ProductCard.tsx, lines 70--78)\<close>

record card_text =
  ct_price :: "string option"
  ct_list_price :: "string option jsx_child"

definition card_price_text :: "'a product_scheme \<Rightarrow> card_text" where
  "card_price_text p =
     \<lparr>ct_price = dollar (discounted_price p),
      ct_list_price = jsx_and_num (discount p) (\<lambda>_. dollar (price p))\<rparr>"

section \<open>CartDrawer labels (CartDrawer.tsx, lines 74--153)\<close>

record line_text =
  lt_name :: string
  lt_price :: "string option"
  lt_list_price :: "string option jsx_child"
  lt_quantity :: string

definition drawer_line_text :: "cart_item \<Rightarrow> line_text" where
  "drawer_line_text i =
     \<lparr>lt_name = name i, lt_price = dollar (discounted_price i),
      lt_list_price = jsx_and_num (discount i) (\<lambda>_. dollar (price i)),
      lt_quantity = show_int (quantity i)\<rparr>"

text \<open>The footer \<open>{cartItems.length > 0 && ... ${totalPrice.toFixed(2)}}\<close>.\<close>

definition drawer_total_text :: "cart \<Rightarrow> string option option" where
  "drawer_total_text c = (if 0 < length c then Some (dollar (total_price c)) else None)"

section \<open>Header (Header.tsx, lines 12--99)\<close>

datatype menu_icon = MenuIcon | CloseIcon

record header_view =
  hv_logo :: string
  hv_nav :: "string list"
  hv_badge :: "int option"
  hv_menu_icon :: menu_icon
  hv_mobile_nav :: "string list option"

text \<open>The five links of the desktop and of the mobile navigation (all \<open>href="#"\<close>).\<close>

definition header_nav_links :: "string list" where
  "header_nav_links = [''Home'', ''Products'', ''Categories'', ''About'', ''Contact'']"

definition header_view :: "header_state \<Rightarrow> int \<Rightarrow> header_view" where
  "header_view h cartItemsCount =
     \<lparr>hv_logo = ''ShopHub'', hv_nav = header_nav_links, hv_badge = header_badge cartItemsCount,
      hv_menu_icon = (if isMenuOpen h then CloseIcon else MenuIcon),
      hv_mobile_nav = (if isMenuOpen h then Some header_nav_links else None)\<rparr>"

section \<open>HeroSection (HeroSection.tsx, lines 4--59)\<close>

text \<open>The banner of the Store page: fixed content, and two buttons without handlers.\<close>

record hero_content =
  hero_heading :: string
  hero_highlight :: string
  hero_text :: string
  hero_buttons :: "string list"
  hero_stats :: "(string \<times> string) list"
  hero_image :: string
  hero_offer :: "string \<times> string"

definition HeroSection :: hero_content where
  "HeroSection =
     \<lparr>hero_heading = ''Discover Amazing'', hero_highlight = ''Products'',
      hero_text = ''Shop from thousands of products with fast delivery, secure payments, and unbeatable prices. Your satisfaction is our priority.'',
      hero_buttons = [''Shop Now'', ''View Categories''],
      hero_stats = [(''10K+'', ''Products''), (''50K+'', ''Happy Customers''), (''4.8'', ''Rating'')],
      hero_image = ''https://images.unsplash.com/photo-1556742049-0cfed4f6a45d?auto=format&fit=crop&q=80&w=400&h=300'',
      hero_offer = (''50%'', ''OFF'')\<rparr>"

section \<open>The open drawer's text\<close>

record drawer_text =
  dt_lines :: "line_text list"
  dt_total :: "string option option"

definition cart_drawer_text :: "bool \<Rightarrow> cart \<Rightarrow> drawer_text option" where
  "cart_drawer_text isOpen c =
     (if \<not> isOpen then None else Some \<lparr>dt_lines = map drawer_line_text c, dt_total = drawer_total_text c\<rparr>)"

section \<open>Store page (Store.tsx, lines 134--200)\<close>

record store_view =
  sv_header :: header_view
  sv_hero :: hero_content
  sv_categories :: "(string \<times> string) list"
  sv_showing :: string
  sv_cards :: "(card_view \<times> card_text) list"
  sv_drawer :: "drawer_text option"

definition store_view :: "page_shell \<Rightarrow> store_view" where
  "store_view s =
     \<lparr>sv_header = header_view (header_st s) (shell_header_count s),
      sv_hero = HeroSection,
      sv_categories = map (\<lambda>(n, c). (n, show_int c)) store_categories,
      sv_showing = ''Showing '' @ show_int (int (length store_mockProducts)) @ '' products'',
      sv_cards = map (\<lambda>p. (product_card_view p, card_price_text p)) store_mockProducts,
      sv_drawer = cart_drawer_text (isCartOpen s) (cart_items s)\<rparr>"

section \<open>Products page (Products.tsx, lines 143--211)\<close>



section \<open>Product detail page (ProductDetail.tsx, lines 161--342)\<close>

record detail_view =
  pd_header :: header_view
  pd_main_image :: "string option"
  pd_thumbnails :: "(string \<times> bool) list"
  pd_badge :: "string jsx_child"
  pd_name :: string
  pd_stars :: "star_glyph list"
  pd_reviewCount :: int
  pd_list_price :: "string option jsx_child"
  pd_price :: "string option"
  pd_discount_badge :: "rat jsx_child"
  pd_quantity :: string
  pd_stock :: string
  pd_add_disabled :: bool
  pd_drawer :: "drawer_text option"

text \<open>
  The image \<open>product.images[selectedImage]\<close>, the thumbnails with the border of
  \<open>selectedImage === index\<close>, the stock line \<open>product.inStock ? `In Stock
  (${product.stockCount} available)` : 'Out of Stock'\<close> and the add button's
  \<open>disabled={!product.inStock}\<close>.
\<close>

definition detail_view :: "detail_product \<Rightarrow> detail_page \<Rightarrow> detail_view" where
  "detail_view dp s =
     \<lparr>pd_header = header_view (header_st s) (shell_header_count s),
      pd_main_image = js_index (images dp) (selectedImage s),
      pd_thumbnails = map (\<lambda>(i, img). (img, selectedImage s = i)) (enumerate 0 (images dp)),
      pd_badge = jsx_and_str (d_badge dp) (\<lambda>b. b),
      pd_name = d_name dp,
      pd_stars = renderStars (d_rating dp),
      pd_reviewCount = d_reviewCount dp,
      pd_list_price = jsx_and_num (d_discount dp) (\<lambda>_. dollar (d_price dp)),
      pd_price = dollar (detail_discounted_price dp),
      pd_discount_badge = jsx_and_num (d_discount dp) (\<lambda>d. d),
      pd_quantity = show_int (detail_quantity s),
      pd_stock = (if inStock dp then ''In Stock ('' @ show_int (stockCount dp) @ '' available)'' else ''Out of Stock''),
      pd_add_disabled = (\<not> inStock dp),
      pd_drawer = cart_drawer_text (isCartOpen s) (cart_items s)\<rparr>"

text \<open>
  The three tabs (\<open><Tabs defaultValue="features">\<close>; which tab is shown is the
  state of the UI library's \<open>Tabs\<close>) and what each renders: the feature list,
  \<open>Object.entries(product.specifications)\<close> in insertion order, and each review
  with its author, \<open>renderStars(review.rating)\<close>, date and comment.
\<close>

datatype detail_tab = FeaturesTab | SpecificationsTab | ReviewsTab

datatype tab_content =
  FeatureList "string list"
| SpecTable "(string \<times> string) list"
| ReviewList "(string \<times> star_glyph list \<times> string \<times> string) list"

definition detail_tab_default :: detail_tab where
  "detail_tab_default = FeaturesTab"

definition detail_tab_view :: "detail_product \<Rightarrow> review list \<Rightarrow> detail_tab \<Rightarrow> tab_content" where
  "detail_tab_view dp rs tab =
     (case tab of
        FeaturesTab \<Rightarrow> FeatureList (features dp)
      | SpecificationsTab \<Rightarrow> SpecTable (specifications dp)
      | ReviewsTab \<Rightarrow> ReviewList (map (\<lambda>r. (author r, renderStars (review_rating r), date r, comment r)) rs))"

section \<open>Categories page cards (Categories.tsx, lines 78--112)\<close>

record category_card =
  cc_name :: string
  cc_trending :: bool
  cc_items :: string
  cc_description :: string
  cc_available :: string

definition category_card :: "category \<Rightarrow> category_card" where
  "category_card c =
     \<lparr>cc_name = cat_name c, cc_trending = (trending c = Some True),
      cc_items = show_int (productCount c) @ '' items'', cc_description = cat_description c,
      cc_available = show_int (productCount c) @ '' products available''\<rparr>"

section \<open>About page content (About.tsx, lines 7--49 and 70--163)\<close>

record team_member =
  member_name :: string
  member_role :: string
  member_image :: string
  member_description :: string

definition teamMembers :: "team_member list" where
  "teamMembers =
    [\<lparr>member_name = ''Sarah Johnson'', member_role = ''CEO & Founder'',
      member_image = ''https://images.unsplash.com/photo-1494790108755-2616b612b692?w=300&h=300&fit=crop'',
      member_description = ''Visionary leader with 15+ years in e-commerce''\<rparr>,
     \<lparr>member_name = ''Michael Chen'', member_role = ''CTO'',
      member_image = ''https://images.unsplash.com/photo-1472099645785-5658abf4ff4e?w=300&h=300&fit=crop'',
      member_description = ''Tech innovator driving our digital transformation''\<rparr>,
     \<lparr>member_name = ''Emily Rodriguez'', member_role = ''Head of Design'',
      member_image = ''https://images.unsplash.com/photo-1438761681033-6461ffad8d80?w=300&h=300&fit=crop'',
      member_description = ''Creative mind behind our user experience''\<rparr>]"

text \<open>An icon is an emoji, kept as its Unicode code points.\<close>

record value_item =
  value_title :: string
  value_description :: string
  value_icon :: "nat list"

definition about_values :: "value_item list" where
  "about_values =
    [\<lparr>value_title = ''Quality First'',
      value_description = ''We source only the finest products from trusted suppliers worldwide'',
      value_icon = [0x2B50]\<rparr>,
     \<lparr>value_title = ''Customer Focus'',
      value_description = ''Your satisfaction is our top priority in everything we do'',
      value_icon = [0x2764, 0xFE0F]\<rparr>,
     \<lparr>value_title = ''Innovation'',
      value_description = ''Constantly evolving to bring you the latest and greatest'',
      value_icon = [0x1F680]\<rparr>,
     \<lparr>value_title = ''Sustainability'',
      value_description = ''Committed to environmentally responsible business practices'',
      value_icon = [0x1F331]\<rparr>]"

definition about_stats :: "(string \<times> string) list" where
  "about_stats = [(''500K+'', ''Happy Customers''), (''10K+'', ''Products''), (''50+'', ''Countries''),
                  (''99.8%'', ''Satisfaction Rate'')]"

text \<open>The cards of the values and team sections: \<open>values.map\<close> and \<open>teamMembers.map\<close>.\<close>

definition about_value_cards :: "(nat list \<times> string \<times> string) list" where
  "about_value_cards = map (\<lambda>v. (value_icon v, value_title v, value_description v)) about_values"

definition about_team_cards :: "(string \<times> string \<times> string \<times> string) list" where
  "about_team_cards = map (\<lambda>m. (member_image m, member_name m, member_role m, member_description m)) teamMembers"

section \<open>Contact page content (Contact.tsx, lines 10--54 and 97--232)\<close>

record contact_method =
  method_title :: string
  method_description :: string
  method_contact :: string
  method_icon :: "nat list"

definition contactMethods :: "contact_method list" where
  "contactMethods =
    [\<lparr>method_title = ''Email Support'', method_description = ''Get help via email within 24 hours'',
      method_contact = ''support@shophub.com'', method_icon = [0x1F4E7]\<rparr>,
     \<lparr>method_title = ''Phone Support'', method_description = ''Speak with our team directly'',
      method_contact = ''+1 (555) 123-4567'', method_icon = [0x1F4DE]\<rparr>,
     \<lparr>method_title = ''Live Chat'', method_description = ''Chat with us in real-time'',
      method_contact = ''Available 9 AM - 6 PM PST'', method_icon = [0x1F4AC]\<rparr>,
     \<lparr>method_title = ''Visit Our Store'', method_description = ''Come see us in person'',
      method_contact = ''123 Commerce St, San Francisco, CA'', method_icon = [0x1F4CD]\<rparr>]"

record faq =
  question :: string
  answer :: string

definition faqs :: "faq list" where
  "faqs =
    [\<lparr>question = ''What is your return policy?'',
      answer = ''We offer a 30-day return policy for all items in original condition.''\<rparr>,
     \<lparr>question = ''How long does shipping take?'',
      answer = ''Standard shipping takes 3-5 business days, express shipping takes 1-2 days.''\<rparr>,
     \<lparr>question = ''Do you ship internationally?'',
      answer = ''Yes, we ship to over 50 countries worldwide with various shipping options.''\<rparr>,
     \<lparr>question = ''How can I track my order?'',
      answer = ''You will receive a tracking number via email once your order ships.''\<rparr>]"

definition business_hours :: "(string \<times> string) list" where
  "business_hours = [(''Monday - Friday'', ''9:00 AM - 6:00 PM PST''), (''Saturday'', ''10:00 AM - 4:00 PM PST''),
                     (''Sunday'', ''Closed'')]"

text \<open>The cards of \<open>contactMethods.map\<close> and \<open>faqs.map\<close>.\<close>

definition contact_method_cards :: "(nat list \<times> string \<times> string \<times> string) list" where
  "contact_method_cards = map (\<lambda>m. (method_icon m, method_title m, method_description m, method_contact m)) contactMethods"

definition faq_cards :: "(string \<times> string) list" where
  "faq_cards = map (\<lambda>q. (question q, answer q)) faqs"

section \<open>Reading a price label\<close>

text \<open>The amount a \<open>$\<close> label denotes: the inverse of \<open>dollar\<close>.\<close>

definition dollar_value :: "string option \<Rightarrow> rat option" where
  "dollar_value l = (case l of Some (c # s) \<Rightarrow> if c = CHR ''$'' then parse_fixed 2 s else None | _ \<Rightarrow> None)"

section \<open>Lemmas\<close>

lemma thumbnails_selected:
  "filter snd (map (\<lambda>(i, img). (img, j = i)) (enumerate n xs))
     = (if n \<le> j \<and> j < n + length xs then [(xs ! (j - n), True)] else [])"
proof (induction xs arbitrary: n)
  case Nil
  then show ?case by simp
next
  case (Cons x xs)
  show ?case
    using Cons [of "Suc n"] by (auto simp: nth_Cons' split: if_splits)
qed

lemma dollar_value_dollar:
  "\<bar>x\<bar> < 10 ^ 21 \<Longrightarrow> dollar_value (dollar x) = Some (fixed_round 2 x)"
  using to_fixed_roundtrip [of 2 x] by (auto simp: dollar_def dollar_value_def)

text \<open>Rounding each line price to cents moves the exact total by at most half a cent per item.\<close>

lemma rounded_lines_close:
  assumes "\<forall>i\<in>set c. 0 \<le> quantity i"
  shows "\<bar>total_price c - sum_list (map (\<lambda>i. fixed_round 2 (discounted_price i) * of_int (quantity i)) c)\<bar>
         \<le> of_int (total_items c) / 200"
  using assms
proof (induction c)
  case Nil
  then show ?case by (simp add: total_price_sum_list total_items_sum_list)
next
  case (Cons i c)
  let ?q = "of_int (quantity i) :: rat"
  have q: "0 \<le> ?q" using Cons.prems by simp
  have "\<bar>discounted_price i * ?q - fixed_round 2 (discounted_price i) * ?q\<bar>
        = \<bar>fixed_round 2 (discounted_price i) - discounted_price i\<bar> * ?q"
    using q by (simp add: abs_mult left_diff_distrib' [symmetric] abs_minus_commute)
  also have "\<dots> \<le> 1 / 200 * ?q"
  proof (rule mult_right_mono [OF _ q])
    show "\<bar>fixed_round 2 (discounted_price i) - discounted_price i\<bar> \<le> 1 / 200"
      using fixed_round_close [of 2 "discounted_price i"] by simp
  qed
  also have "\<dots> = ?q / 200" by simp
  finally have line: "\<bar>discounted_price i * ?q - fixed_round 2 (discounted_price i) * ?q\<bar> \<le> ?q / 200" .
  have rest: "\<bar>total_price c - sum_list (map (\<lambda>i. fixed_round 2 (discounted_price i) * of_int (quantity i)) c)\<bar>
              \<le> of_int (total_items c) / 200"
    using Cons.IH Cons.prems by simp
  let ?S = "\<lambda>c. sum_list (map (\<lambda>i. fixed_round 2 (discounted_price i) * of_int (quantity i)) c)"
  have "total_price (i # c) - ?S (i # c)
        = (discounted_price i * ?q - fixed_round 2 (discounted_price i) * ?q) + (total_price c - ?S c)"
    by (simp add: total_price_sum_list)
  then have "\<bar>total_price (i # c) - ?S (i # c)\<bar>
        \<le> \<bar>discounted_price i * ?q - fixed_round 2 (discounted_price i) * ?q\<bar> + \<bar>total_price c - ?S c\<bar>"
    by (simp only: abs_triangle_ineq)
  also have "\<dots> \<le> ?q / 200 + of_int (total_items c) / 200"
    using line rest by (rule add_mono)
  finally show ?case
    by (simp add: total_items_Cons add_divide_distrib)
qed

section \<open>Properties\<close>

text \<open>
  C37: in every state the detail page reaches (for a product with stock and images)
  the large image is defined (never \<open>src={undefined}\<close>), and exactly one
  thumbnail is highlighted: the one showing the large image.
\<close>

theorem detail_view_image_selected:
  assumes "reach (detail_step dp) detail_init s" and "1 \<le> stockCount dp" and "images dp \<noteq> []"
  shows "pd_main_image (detail_view dp s) = Some (images dp ! selectedImage s)
       \<and> filter snd (pd_thumbnails (detail_view dp s)) = [(images dp ! selectedImage s, True)]"
proof -
  have "selectedImage s < length (images dp)"
    using detail_reach_inv [OF assms] by (simp add: detail_inv_def)
  then show ?thesis
    by (simp add: detail_view_def js_index_def thumbnails_selected)
qed

theorem detail_view_image_selected_witness:
  "reach (detail_step detail_mockProduct) detail_init (run (detail_step detail_mockProduct) detail_init [SelectImage 2, SelectImage 5])
   \<and> 1 \<le> stockCount detail_mockProduct \<and> images detail_mockProduct \<noteq> []
   \<and> pd_main_image (detail_view detail_mockProduct (run (detail_step detail_mockProduct) detail_init [SelectImage 2, SelectImage 5]))
       = Some (images detail_mockProduct ! selectedImage (run (detail_step detail_mockProduct) detail_init [SelectImage 2, SelectImage 5]))
   \<and> filter snd (pd_thumbnails (detail_view detail_mockProduct (run (detail_step detail_mockProduct) detail_init [SelectImage 2, SelectImage 5])))
       = [(images detail_mockProduct ! selectedImage (run (detail_step detail_mockProduct) detail_init [SelectImage 2, SelectImage 5]), True)]"
proof -
  have h: "1 \<le> stockCount detail_mockProduct" "images detail_mockProduct \<noteq> []"
    by (simp_all add: detail_mockProduct_def)
  have r: "reach (detail_step detail_mockProduct) detail_init (run (detail_step detail_mockProduct) detail_init [SelectImage 2, SelectImage 5])"
    by (rule reach_run)
  from detail_view_image_selected [OF r h] r h show ?thesis
    by blast
qed



end
