(* ===== verification/Page_Progress.thy ===== *)
theory Page_Progress
  imports Pages "HOL-Library.While_Combinator"
begin

text \<open>
  Progress of the pages under sequences of user events. Two things a user must
  always be able to do: empty the cart from the drawer (each Trash button
  removes its line, and the first line's button is always there while the cart
  is non-empty), and run the quantity stepper of the product page up to the
  stock count, where \<open>Math.min(product.stockCount, quantity + 1)\<close> stops it.
  The stepper is a loop over clicks, written with \<open>while_option\<close>: it returns
  \<open>Some\<close> exactly when holding \<open>+\<close> reaches a state that one more click does not
  change.
\<close>

section \<open>Lemmas\<close>

lemma run_Cons: "run step s (e # es) = run step (step s e) es"
  by (simp add: run_def)

lemma remove_line_head:
  "cart_wf (i # c) \<Longrightarrow> remove_line (pid i) (i # c) = c"
  by (simp add: remove_line_def cart_wf_Cons filter_id_conv) (metis (mono_tags) filter_True image_eqI set_map)

text \<open>
  If one press of the first line's trash button drops that line and keeps the
  drawer open, pressing it once per line empties the cart.
\<close>

lemma store_trash_all:
  assumes one: "\<And>t i c. isCartOpen t \<Longrightarrow> cart_wf (cart_items t) \<Longrightarrow> cart_items t = i # c
      \<Longrightarrow> cart_items (store_step t (StoreDrawer (Trash 0))) = c \<and> isCartOpen (store_step t (StoreDrawer (Trash 0)))"
    and "isCartOpen s" and "cart_wf (cart_items s)"
  shows "cart_items (run store_step s (replicate (length (cart_items s)) (StoreDrawer (Trash 0)))) = []"
  using assms(2,3)
proof (induction "length (cart_items s)" arbitrary: s)
  case 0
  then show ?case by (simp add: run_def)
next
  case (Suc n)
  then obtain i c where ic: "cart_items s = i # c" by (cases "cart_items s") auto
  let ?t = "store_step s (StoreDrawer (Trash 0))"
  have t: "cart_items ?t = c" "isCartOpen ?t"
    using one [OF Suc.prems ic] by simp_all
  have wf: "cart_wf (cart_items ?t)"
    using store_step_wf [OF Suc.prems(2)] by blast
  have "n = length (cart_items ?t)" using Suc.hyps(2) ic t(1) by simp
  then have rest: "cart_items (run store_step ?t (replicate n (StoreDrawer (Trash 0)))) = []"
    using Suc.hyps(1) t(2) wf by blast
  have "replicate (length (cart_items s)) (StoreDrawer (Trash 0))
        = StoreDrawer (Trash 0) # replicate n (StoreDrawer (Trash 0))"
    using Suc.hyps(2) by (metis replicate_Suc)
  then show ?case
    using rest by (simp only: run_Cons)
qed

lemma store_reach_wf:
  assumes "reach store_step store_init s"
  shows "cart_wf (cart_items s)"
proof (rule reach_invariant [where I = "\<lambda>s. cart_wf (cart_items s)"])
  show "reach store_step store_init s" by (rule assms)
  show "cart_wf (cart_items store_init)" by (simp add: store_init_def cart_wf_def)
qed (rule store_step_wf)

lemma detail_quantity_update_same:
  "s\<lparr>detail_quantity := v\<rparr> = s \<longleftrightarrow> v = detail_quantity s"
  by (cases s) simp

section \<open>Properties\<close>

text \<open>
  C35: liveness of emptying the cart: from every state the Store page can reach,
  opening the drawer and pressing the first line's trash button once per line
  empties the cart; the header then shows no badge.
\<close>

theorem store_drawer_empties_cart:
  assumes "reach store_step store_init s"
  shows "cart_items (run store_step s (StoreHeader CartButton # replicate (length (cart_items s)) (StoreDrawer (Trash 0)))) = []
       \<and> header_badge (shell_header_count (run store_step s (StoreHeader CartButton # replicate (length (cart_items s)) (StoreDrawer (Trash 0))))) = None"
proof -
  let ?o = "store_step s (StoreHeader CartButton)"
  have o: "isCartOpen ?o" "cart_items ?o = cart_items s"
    by (simp_all add: shell_header_click_def header_handle_def)
  have one: "cart_items (store_step t (StoreDrawer (Trash 0))) = c \<and> isCartOpen (store_step t (StoreDrawer (Trash 0)))"
    if "isCartOpen t" and "cart_wf (cart_items t)" and "cart_items t = i # c" for t i c
    using that remove_line_head [of i c]
    by (simp add: shell_drawer_click_def shell_drawer_call_def drawer_dispatch_def page_cart_items
        store_handleRemoveItem_def)
  have wf: "cart_wf (cart_items ?o)"
    using store_reach_wf [OF assms] o(2) by simp
  have "cart_items (run store_step ?o (replicate (length (cart_items ?o)) (StoreDrawer (Trash 0)))) = []"
    by (rule store_trash_all [OF one o(1) wf])
  then have e: "cart_items (run store_step s (StoreHeader CartButton # replicate (length (cart_items s)) (StoreDrawer (Trash 0)))) = []"
    by (simp only: run_Cons o(2))
  then show ?thesis
    by (simp add: shell_header_count_def total_items_def header_badge_def)
qed

theorem store_drawer_empties_cart_witness:
  "reach store_step store_init (run store_step store_init [StoreCardAdd 0, StoreCardAdd 3, StoreCardAdd 0])
   \<and> cart_items (run store_step (run store_step store_init [StoreCardAdd 0, StoreCardAdd 3, StoreCardAdd 0]) (StoreHeader CartButton # replicate (length (cart_items (run store_step store_init [StoreCardAdd 0, StoreCardAdd 3, StoreCardAdd 0]))) (StoreDrawer (Trash 0)))) = []
   \<and> header_badge (shell_header_count (run store_step (run store_step store_init [StoreCardAdd 0, StoreCardAdd 3, StoreCardAdd 0]) (StoreHeader CartButton # replicate (length (cart_items (run store_step store_init [StoreCardAdd 0, StoreCardAdd 3, StoreCardAdd 0]))) (StoreDrawer (Trash 0))))) = None"
  by (rule conjI [OF reach_run], rule store_drawer_empties_cart [OF reach_run])

text \<open>
  C36: termination of holding \<open>+\<close>: from a stepper value within 1 and the stock, clicking
  \<open>+\<close> until a click changes nothing stops, at the stock count, with the cart unchanged.
\<close>

theorem detail_plus_reaches_stock:
  assumes "1 \<le> detail_quantity s" and "detail_quantity s \<le> stockCount dp"
  shows "\<exists>t. while_option (\<lambda>t. detail_step dp t QtyPlus \<noteq> t) (\<lambda>t. detail_step dp t QtyPlus) s = Some t
             \<and> detail_quantity t = stockCount dp \<and> cart_items t = cart_items s"
proof -
  let ?b = "\<lambda>t. detail_step dp t QtyPlus \<noteq> t" and ?c = "\<lambda>t. detail_step dp t QtyPlus"
  let ?P = "\<lambda>t. detail_quantity t \<le> stockCount dp \<and> cart_items t = cart_items s"
  have fixed: "?c t = t \<longleftrightarrow> detail_quantity t = stockCount dp" if "detail_quantity t \<le> stockCount dp" for t
    using that by (auto simp: detail_quantity_update_same min_def)
  have moves: "detail_quantity (?c t) = detail_quantity t + 1 \<and> detail_quantity t + 1 \<le> stockCount dp
      \<and> cart_items (?c t) = cart_items t" if "detail_quantity t \<le> stockCount dp" and "?b t" for t
    using that fixed [OF that(1)] by simp
  have step: "?P (?c t) \<and> nat (stockCount dp - detail_quantity (?c t)) < nat (stockCount dp - detail_quantity t)"
    if P: "?P t" and b: "?b t" for t
  proof -
    have m: "detail_quantity (?c t) = detail_quantity t + 1" "detail_quantity t + 1 \<le> stockCount dp"
      "cart_items (?c t) = cart_items t"
      using moves [OF conjunct1 [OF P] b] by simp_all
    have "nat (stockCount dp - (detail_quantity t + 1)) < nat (stockCount dp - detail_quantity t)"
      using m(2) by linarith
    then show ?thesis
      using m P by (simp only:)
  qed
  have init: "?P s"
    using assms(2) by simp
  have "\<exists>t. while_option ?b ?c s = Some t"
    by (rule measure_while_option_Some [where P = ?P and f = "\<lambda>t. nat (stockCount dp - detail_quantity t)"])
       (rule step, assumption+, rule init)
  then obtain t where t: "while_option ?b ?c s = Some t"
    by blast
  have inv: "?P t"
  proof (rule while_option_rule [where P = ?P, OF _ t])
    show "?P (?c u)" if "?P u" and "?b u" for u
      using step [OF that] by (rule conjunct1)
  qed (rule init)
  have stop: "\<not> ?b t"
    by (rule while_option_stop [OF t])
  from inv have "detail_quantity t = stockCount dp"
    using stop fixed [of t] by blast
  with t inv show ?thesis
    by blast
qed

theorem detail_plus_reaches_stock_witness:
  "1 \<le> detail_quantity detail_init \<and> detail_quantity detail_init \<le> stockCount detail_mockProduct
   \<and> (\<exists>t. while_option (\<lambda>t. detail_step detail_mockProduct t QtyPlus \<noteq> t)
              (\<lambda>t. detail_step detail_mockProduct t QtyPlus) detail_init = Some t
         \<and> detail_quantity t = stockCount detail_mockProduct \<and> cart_items t = cart_items detail_init)"
proof -
  have h: "1 \<le> detail_quantity detail_init" "detail_quantity detail_init \<le> stockCount detail_mockProduct"
    by (simp_all add: detail_init_def detail_mockProduct_def)
  show ?thesis
    using detail_plus_reaches_stock [OF h] h by blast
qed

end
