(* ===== verification/Spec2Isabelle.thy ===== *)
theory Spec2Isabelle
  imports Display Page_Progress
begin

text \<open>
  \<^bold>\<open>A verification model of the ShopHub storefront (KKTT/stylish-studio-kit).\<close>

  \<^bold>\<open>The program.\<close> A React storefront (\<open>src/src\<close>): pages render hard-coded
  catalogs, and three of them (\<open>pages/Store.tsx\<close>, \<open>pages/Products.tsx\<close>,
  \<open>pages/ProductDetail.tsx\<close>) keep a client-side cart in \<open>useState\<close>. Data flows one
  way: a product card's button calls the page's \<open>handleAddToCart\<close>; the page
  passes its cart to \<open>components/Header.tsx\<close> (count badge) and
  \<open>components/CartDrawer.tsx\<close> (lines, totals); the drawer's buttons call back into
  the page's \<open>handleUpdateQuantity\<close> and \<open>handleRemoveItem\<close>. Each page owns its
  own cart; nothing is shared across pages or persisted. The About, Categories and
  Contact pages pass an empty cart and no-op callbacks to the drawer.

  \<^bold>\<open>Theories.\<close>
  \<^item> \<open>Shop_Prelude\<close>: type names (\<open>product_id\<close>, \<open>money = rat\<close>), the JavaScript
    semantics the code relies on (truthiness of an optional number, \<open>String.slice\<close>
    with negative indices, the decimal digits of an integer, \<open>show_digits\<close>,
    computed on \<open>int\<close> by a \<open>function\<close> with a measure), the generic reachability
    relation \<open>reach\<close> of an event-driven component with \<open>run\<close> and
    \<open>reach_invariant\<close>, and shared list lemmas (\<open>cart_simps\<close>).
  \<^item> \<open>Catalog\<close>: the \<open>Product\<close> interface as the record \<open>product\<close>, the discount
    ternary (\<open>discount_price\<close>, \<open>discounted_price\<close>), what a \<open>ProductCard\<close>
    renders (\<open>product_card_view\<close>, with React's rendering of \<open>{0 && ...}\<close> as
    \<open>jsx_and_num\<close>), its stars (\<open>card_stars\<close>), ProductDetail's \<open>renderStars\<close>,
    the detail page's \<open>Product\<close> (\<open>detail_product\<close>) and the mock catalogs.
  \<^item> \<open>Cart\<close>: \<open>CartItem\<close> as \<open>cart_item = product + quantity\<close>, the state the
    handlers touch (\<open>cart_state\<close>: cart and the toasts raised), the update idioms
    (\<open>find_line\<close>, \<open>add_quantity\<close>, \<open>set_quantity\<close>, \<open>remove_line\<close>,
    \<open>merge_line\<close>), one definition per handler of each page
    (\<open>store_handle*\<close>, \<open>products_handle*\<close>, \<open>detail_handle*\<close>), the drawer's
    folds \<open>total_items\<close> and \<open>total_price\<close>; the abstraction \<open>cart_abs\<close> to a
    map from id to quantity with the abstract operations \<open>abs_add\<close>,
    \<open>abs_set\<close>, \<open>abs_remove\<close>, and the invariant \<open>cart_wf\<close> (one line per id,
    quantities at least 1).
  \<^item> \<open>Drawer\<close>: what \<open>CartDrawer\<close> renders (\<open>cart_drawer_view\<close>) and which
    callback each of its buttons calls (\<open>drawer_dispatch\<close>, with the decrement
    disabled at quantity 1); the \<open>Header\<close>'s badge and menu toggle.
  \<^item> \<open>Listing\<close>: the Products page's sort (\<open>Array.prototype.sort\<close> with the
    comparator, modelled as a stable insertion sort \<open>js_sort\<close>) and filter.
  \<^item> \<open>Pages\<close>: each page with a cart as a record extending \<open>page_shell\<close> and a
    step function over its UI events (\<open>store_step\<close>, \<open>products_step\<close>,
    \<open>detail_step\<close>), wiring the header and drawer callbacks to the page's
    handlers (\<open>shell_header_click\<close>, \<open>shell_drawer_click\<close>).
  \<^item> \<open>Static_Pages\<close>: \<open>pages/Contact.tsx\<close> (the form as a map from input name to
    value, \<open>handleInputChange\<close>, \<open>handleSubmit\<close> behind the browser's validation of
    the required inputs, \<open>contact_step\<close>), \<open>pages/About.tsx\<close> and
    \<open>pages/Categories.tsx\<close> (the shell with no-op drawer callbacks,
    \<open>static_step\<close>) and the categories data.
  \<^item> \<open>Js_Number\<close>: \<open>Number.prototype.toFixed\<close> as the ECMAScript standard
    specifies it (\<open>to_fixed\<close>: RangeError, sign, nearest integer with ties to the
    larger, zero padding, the point), on exact rationals, and its inverse
    \<open>parse_fixed\<close>.
  \<^item> \<open>Display\<close>: what each component shows as text: the \<open>$\<close> price labels
    (\<open>dollar\<close>) of the card and of the drawer's lines and footer, the header
    (\<open>header_view\<close>), the hero banner, each page's rendering
    (\<open>store_view\<close>, \<open>products_view\<close>, \<open>detail_view\<close> with the three tabs),
    and the About and Categories content.
  \<^item> \<open>Page_Progress\<close>: the pages under sequences of events: the drawer can
    always empty the Store cart, and holding \<open>+\<close> on the detail stepper, a loop
    written with \<open>while_option\<close>, stops at the stock count.

  \<^bold>\<open>What is proved.\<close> Refinement against the abstract map of the Store add
  and update handlers, the detail page's add and the item count
  (\<open>Cart.store_add_refines\<close>, \<open>store_update_refines\<close>, \<open>detail_add_refines\<close>,
  \<open>total_items_refines\<close>; the other handlers have such lemmas too); preservation
  of \<open>cart_wf\<close> by each handler and in every reachable state of each page
  (\<open>Pages.store_reachable_wf\<close> and its siblings, by rule induction through
  \<open>reach_invariant\<close>); the spec's rules in general form (adding twice gives one
  line of quantity 2, quantity \<open>\<le> 0\<close> removes, removing an absent id changes
  nothing, adding raises the total by the product's discounted price); bounds on
  prices and totals; equivalences between the pages' duplicated code (Store and
  Products add, card stars and \<open>renderStars\<close>, the discount ternary and a
  uniform formula); the sort as the library's \<open>sort_key\<close> (sorted, a
  permutation, stable); a drawer \<open>+\<close>/\<open>-\<close> roundtrip; and the divergences
  found: \<open>Cart.products_update_negative_kept\<close> (Products and ProductDetail keep a
  negative quantity; unreachable through the drawer), \<open>Pages.detail_cart_exceeds_stock\<close>
  (the stock clamp bounds only the stepper), \<open>Catalog.zero_discount_renders_zero\<close>.
  For the pages without a cart: typing into an input updates that field only,
  a valid submit resets the form with one toast, an empty required field or a
  malformed e-mail blocks it, and in every reachable state the cart stays empty
  (\<open>Static_Pages.contact_reachable_inv\<close>, \<open>static_pages_cart_empty\<close>).
  Liveness and termination: \<open>Page_Progress.store_drawer_empties_cart\<close>,
  \<open>Page_Progress.detail_plus_reaches_stock\<close>. What is displayed: clicking a
  rendered card adds the product it shows (\<open>Display.products_card_click_adds_shown\<close>),
  the detail page always shows a defined image with one highlighted thumbnail,
  and the drawer's labels read as the rounded prices while its footer differs
  from the sum of the labels shown by up to half a cent per item
  (\<open>drawer_text_totals\<close>, below). The library lemmas on \<open>toFixed\<close>
  (\<open>Js_Number.to_fixed_roundtrip\<close>, \<open>Js_Number.fixed_n_nearest\<close>) carry the last.

  \<^bold>\<open>Numbers, bounds, fuel.\<close> TypeScript numbers are IEEE doubles; prices,
  discounts and ratings are modelled as exact rationals and quantities as
  unbounded integers, so the rounding of double arithmetic is not modelled:
  \<open>toFixed\<close> is applied to the exact value (for the catalog's prices the
  printed strings agree with the browser's). No claim depends on overflow, which
  cannot occur at these magnitudes. Every function of the model is total:
  structurally recursive, or \<open>show_digits\<close> with its termination proof; no loop
  of the code needs fuel. A page run is a finite list of events; holding a
  button is \<open>while_option\<close>, whose result is \<open>None\<close> if it never stops,
  and \<open>detail_plus_reaches_stock\<close> proves it is \<open>Some\<close>.

  \<^bold>\<open>Not modelled.\<close> Markup and styling; the UI library (\<open>@/components/ui\<close>:
  which tab is selected is the state of its \<open>Tabs\<close>, so only each tab's content is
  modelled) and the toast hook (a toast is the record passed to \<open>toast()\<close>);
  prose paragraphs (text without behaviour); the rating
  printed as \<open>{product.rating}\<close> and the discount badges (\<open>Number::toString\<close>
  of a non-integer is not modelled; the badges keep the number); \<open>toFixed\<close>'s
  exponential form for \<open>|x| \<ge> 10^21\<close>; the e-mail syntax beyond one \<open>@\<close>
  with text on both sides; React StrictMode's double invocation of updaters
  (Store raises its toast inside an updater).
\<close>

section \<open>What the drawer shows against what it computes\<close>

text \<open>
  The drawer prints each line's unit price and the footer's total with
  \<open>toFixed(2)\<close>, each rounded on its own. The run used as an example adds the
  headphones (card 0), the phone case (card 3) and the headphones again.
\<close>

definition store_scenario :: "store_event list" where
  "store_scenario = [StoreCardAdd 0, StoreCardAdd 3, StoreCardAdd 0, StoreHeader CartButton]"

text \<open>
  C29: for a well-formed cart (amounts below \<open>10^21\<close>), every line's label reads
  as its discounted unit price rounded to cents, the footer reads as the exact
  total rounded to cents, and the footer differs from the total a shopper
  computes from the labels shown (unit price times quantity) by at most half a
  cent per item plus half a cent: the two agree only up to rounding.
\<close>

theorem drawer_text_totals:
  assumes "cart_wf c" and "\<forall>i\<in>set c. \<bar>discounted_price i\<bar> < 10 ^ 21" and "\<bar>total_price c\<bar> < 10 ^ 21"
  shows "(\<forall>i\<in>set c. dollar_value (lt_price (drawer_line_text i)) = Some (fixed_round 2 (discounted_price i)))
       \<and> (c \<noteq> [] \<longrightarrow> map_option dollar_value (drawer_total_text c) = Some (Some (fixed_round 2 (total_price c))))
       \<and> \<bar>fixed_round 2 (total_price c)
           - sum_list (map (\<lambda>i. fixed_round 2 (discounted_price i) * of_int (quantity i)) c)\<bar>
         \<le> (1 + of_int (total_items c)) / 200"
proof -
  have lines: "\<forall>i\<in>set c. dollar_value (lt_price (drawer_line_text i)) = Some (fixed_round 2 (discounted_price i))"
    using assms(2) by (simp add: drawer_line_text_def dollar_value_dollar)
  have footer: "c \<noteq> [] \<longrightarrow> map_option dollar_value (drawer_total_text c) = Some (Some (fixed_round 2 (total_price c)))"
    using assms(3) by (simp add: drawer_total_text_def dollar_value_dollar)
  have q: "\<forall>i\<in>set c. 0 \<le> quantity i"
    using assms(1) by (auto simp: cart_wf_def)
  let ?T = "total_price c" and ?S = "sum_list (map (\<lambda>i. fixed_round 2 (discounted_price i) * of_int (quantity i)) c)"
  have r: "\<bar>fixed_round 2 ?T - ?T\<bar> \<le> 1 / 200"
    using fixed_round_close [of 2 ?T] by simp
  have "\<bar>fixed_round 2 ?T - ?S\<bar> \<le> \<bar>fixed_round 2 ?T - ?T\<bar> + \<bar>?T - ?S\<bar>"
    using abs_triangle_ineq [of "fixed_round 2 ?T - ?T" "?T - ?S"] by simp
  also have "\<dots> \<le> 1 / 200 + of_int (total_items c) / 200"
    using r rounded_lines_close [OF q] by (rule add_mono)
  finally have "\<bar>fixed_round 2 ?T - ?S\<bar> \<le> 1 / 200 + of_int (total_items c) / 200" .
  then show ?thesis
    using lines footer by (simp add: add_divide_distrib)
qed

text \<open>
  On the example run the labels show \<open>$63.99\<close> twice and \<open>$17.49\<close>, which sum to
  \<open>145.47\<close>, while the footer shows \<open>$145.48\<close>.
\<close>

theorem drawer_text_totals_witness:
  "cart_wf (cart_items (run store_step store_init store_scenario))
   \<and> list_all (\<lambda>i. \<bar>discounted_price i\<bar> < 10 ^ 21) (cart_items (run store_step store_init store_scenario))
   \<and> \<bar>total_price (cart_items (run store_step store_init store_scenario))\<bar> < 10 ^ 21
   \<and> list_all (\<lambda>i. dollar_value (lt_price (drawer_line_text i)) = Some (fixed_round 2 (discounted_price i))) (cart_items (run store_step store_init store_scenario))
   \<and> map_option dollar_value (drawer_total_text (cart_items (run store_step store_init store_scenario))) = Some (Some (fixed_round 2 (total_price (cart_items (run store_step store_init store_scenario)))))
   \<and> fixed_round 2 (total_price (cart_items (run store_step store_init store_scenario))) = 145.48
   \<and> sum_list (map (\<lambda>i. fixed_round 2 (discounted_price i) * of_int (quantity i)) (cart_items (run store_step store_init store_scenario))) = 145.47
   \<and> \<bar>fixed_round 2 (total_price (cart_items (run store_step store_init store_scenario)))
       - sum_list (map (\<lambda>i. fixed_round 2 (discounted_price i) * of_int (quantity i)) (cart_items (run store_step store_init store_scenario)))\<bar>
     \<le> (1 + of_int (total_items (cart_items (run store_step store_init store_scenario)))) / 200"
proof -
  have h: "cart_wf (cart_items (run store_step store_init store_scenario))"
    "list_all (\<lambda>i. \<bar>discounted_price i\<bar> < 10 ^ 21) (cart_items (run store_step store_init store_scenario))"
    "\<bar>total_price (cart_items (run store_step store_init store_scenario))\<bar> < 10 ^ 21"
    by code_simp+
  have ne: "(cart_items (run store_step store_init store_scenario)) \<noteq> []"
    and v: "fixed_round 2 (total_price (cart_items (run store_step store_init store_scenario))) = 145.48"
      "sum_list (map (\<lambda>i. fixed_round 2 (discounted_price i) * of_int (quantity i)) (cart_items (run store_step store_init store_scenario))) = 145.47"
    by code_simp+
  note T = drawer_text_totals [OF h(1) h(2) [unfolded list_all_iff] h(3)]
  have l: "list_all (\<lambda>i. dollar_value (lt_price (drawer_line_text i)) = Some (fixed_round 2 (discounted_price i))) (cart_items (run store_step store_init store_scenario))"
    using T unfolding list_all_iff by blast
  have f: "map_option dollar_value (drawer_total_text (cart_items (run store_step store_init store_scenario))) = Some (Some (fixed_round 2 (total_price (cart_items (run store_step store_init store_scenario)))))"
    using T ne by blast
  show ?thesis
    using h l f v T by blast
qed

end
